theory Spec2Isabelle
  imports Complex_Main "HOL-Library.Log_Nat"
begin

section \<open>Numbers, dates and strings of the host language\<close>

text \<open>
  The statistics service (\<^verbatim>\<open>server/src/services/statistics.ts\<close>) computes with
  JavaScript numbers, which are IEEE 754 doubles. A finite double is a rational
  number, so a number is a \<open>rat\<close>, and an arithmetic operation of the code is the
  exact operation followed by \<open>toDouble\<close>, the rounding to the nearest double
  with ties to the even significand. Subnormal results are rounded on their
  fixed grid; overflow to infinity and \<^verbatim>\<open>NaN\<close> are outside the model (nutrient
  quantities are far below \<open>2 ^ 1024\<close>, and no divisor of the code is zero on
  the paths modelled). A number that the code rounds with \<^verbatim>\<open>Math.round\<close> becomes
  an \<open>int\<close>.
\<close>

definition pow2 :: "int \<Rightarrow> rat" where
  "pow2 e = (if 0 \<le> e then 2 ^ nat e else 1 / 2 ^ nat (- e))"

definition roundHalfEven :: "rat \<Rightarrow> int" where
  \<comment> \<open>The nearest integer, a half rounded to the even neighbour.\<close>
  "roundHalfEven x =
     (let f = \<lfloor>x\<rfloor>; r = x - of_int f
      in if r < 1 / 2 then f else if 1 / 2 < r then f + 1 else if even f then f else f + 1)"

definition binade :: "rat \<Rightarrow> int" where
  \<comment> \<open>For \<open>x \<noteq> 0\<close> the exponent \<open>k\<close> with \<open>2 ^ k \<le> \<bar>x\<bar> < 2 ^ (k + 1)\<close>.\<close>
  "binade x =
     (if 1 \<le> \<bar>x\<bar> then bitlen \<lfloor>\<bar>x\<bar>\<rfloor> - 1 else - bitlen (\<lceil>1 / \<bar>x\<bar>\<rceil> - 1))"

definition toDouble :: "rat \<Rightarrow> rat" where
  \<comment> \<open>The double nearest to \<open>x\<close>: a significand of 53 bits, the exponent of the
      last bit not below \<open>-1074\<close>.\<close>
  "toDouble x =
     (if x = 0 then 0
      else (let e = max (binade x - 52) (- 1074)
            in of_int (roundHalfEven (x / pow2 e)) * pow2 e))"

definition jsAdd :: "rat \<Rightarrow> rat \<Rightarrow> rat" where
  \<comment> \<open>\<^verbatim>\<open>x + y\<close> on numbers\<close>
  "jsAdd x y = toDouble (x + y)"

definition jsMul :: "rat \<Rightarrow> rat \<Rightarrow> rat" where
  \<comment> \<open>\<^verbatim>\<open>x * y\<close>\<close>
  "jsMul x y = toDouble (x * y)"

definition jsDiv :: "rat \<Rightarrow> rat \<Rightarrow> rat" where
  \<comment> \<open>\<^verbatim>\<open>x / y\<close> for \<open>y \<noteq> 0\<close>\<close>
  "jsDiv x y = toDouble (x / y)"

definition js_round :: "rat \<Rightarrow> int" where
  \<comment> \<open>\<^verbatim>\<open>Math.round\<close>: the nearest integer, a half rounded towards plus infinity.
      It is computed exactly, not by a rounded addition.\<close>
  "js_round x = \<lfloor>x + 1 / 2\<rfloor>"

definition js_ceil :: "rat \<Rightarrow> int" where
  "js_ceil x = \<lceil>x\<rceil>"

definition orZero :: "rat option \<Rightarrow> rat" where
  \<comment> \<open>\<^verbatim>\<open>field || 0\<close> on a nullable numeric column. The column holds a double: a
      stored value that is not one is read as the nearest double, as a decimal
      literal is.\<close>
  "orZero v = (case v of None \<Rightarrow> 0 | Some x \<Rightarrow> toDouble x)"

text \<open>
  A \<^verbatim>\<open>Date\<close> is its epoch time in milliseconds. Local time is the epoch time
  shifted by a fixed offset \<open>tz\<close> (milliseconds east of UTC); daylight-saving
  changes inside the analysed window are not modelled, so moving the day of the
  month back by \<open>n\<close> moves the instant back by exactly \<open>n\<close> days. Epoch times,
  hours and minutes are integers that doubles hold exactly, so sums and
  differences of them are exact. The time of day \<open>h + m / 60\<close> of the eating
  window is kept exact as well: on the 1440 whole minutes of a day the double
  value is strictly increasing in the minute and \<^verbatim>\<open>formatHour\<close> recovers \<open>h\<close> and
  \<open>m\<close> from it, as it does from the exact value.
\<close>

definition msPerDay :: int where
  "msPerDay = 1000 * 60 * 60 * 24"

definition getHours :: "int \<Rightarrow> int \<Rightarrow> int" where
  "getHours tz t = ((t + tz) div 3600000) mod 24"

definition getMinutes :: "int \<Rightarrow> int \<Rightarrow> int" where
  "getMinutes tz t = ((t + tz) div 60000) mod 60"

definition digitChar :: "nat \<Rightarrow> char" where
  "digitChar d =
     (if d = 0 then CHR ''0'' else if d = 1 then CHR ''1'' else if d = 2 then CHR ''2''
      else if d = 3 then CHR ''3'' else if d = 4 then CHR ''4'' else if d = 5 then CHR ''5''
      else if d = 6 then CHR ''6'' else if d = 7 then CHR ''7'' else if d = 8 then CHR ''8''
      else CHR ''9'')"

fun showNat :: "nat \<Rightarrow> string" where
  "showNat n = (if n < 10 then [digitChar n] else showNat (n div 10) @ [digitChar (n mod 10)])"

declare showNat.simps [simp del]

definition toString :: "int \<Rightarrow> string" where
  \<comment> \<open>\<^verbatim>\<open>n.toString()\<close> of an integral number.\<close>
  "toString n = (if n < 0 then CHR ''-'' # showNat (nat (- n)) else showNat (nat n))"

definition padStart :: "nat \<Rightarrow> char \<Rightarrow> string \<Rightarrow> string" where
  "padStart w c s = replicate (w - length s) c @ s"

fun splitOn :: "char \<Rightarrow> string \<Rightarrow> string list" where
  "splitOn c [] = [[]]"
| "splitOn c (x # xs) =
     (if x = c then [] # splitOn c xs
      else (case splitOn c xs of [] \<Rightarrow> [[x]] | w # ws \<Rightarrow> (x # w) # ws))"

definition digitVal :: "char \<Rightarrow> nat option" where
  \<comment> \<open>The value of a decimal digit; \<open>None\<close> for any other character.\<close>
  "digitVal c =
     map_of
       [(CHR ''0'', 0), (CHR ''1'', 1), (CHR ''2'', 2), (CHR ''3'', 3), (CHR ''4'', 4),
        (CHR ''5'', 5), (CHR ''6'', 6), (CHR ''7'', 7), (CHR ''8'', 8), (CHR ''9'', 9)] c"

fun digitsValue :: "nat \<Rightarrow> string \<Rightarrow> nat option" where
  "digitsValue acc [] = Some acc"
| "digitsValue acc (c # cs) =
     (case digitVal c of None \<Rightarrow> None | Some d \<Rightarrow> digitsValue (10 * acc + d) cs)"

definition jsNumber :: "string \<Rightarrow> nat option" where
  \<comment> \<open>\<^verbatim>\<open>Number(s)\<close> on the strings \<^verbatim>\<open>formatHour\<close> can produce: a run of decimal
      digits is its value and the empty string is 0. \<open>None\<close> is \<^verbatim>\<open>NaN\<close>; signs, blanks,
      fractions, exponents and radix prefixes are outside the fragment and also
      give \<open>None\<close>.\<close>
  "jsNumber s = digitsValue 0 s"

definition toLowerChar :: "char \<Rightarrow> char" where
  "toLowerChar c =
     (let n = (of_char c :: nat) in if 65 \<le> n \<and> n \<le> 90 then char_of (n + 32) else c)"

definition toLowerCase :: "string \<Rightarrow> string" where
  \<comment> \<open>ASCII letters only; other characters are left as they are.\<close>
  "toLowerCase s = map toLowerChar s"

fun startsWith :: "string \<Rightarrow> string \<Rightarrow> bool" where
  "startsWith s [] = True"
| "startsWith [] (p # ps) = False"
| "startsWith (c # cs) (p # ps) = (c = p \<and> startsWith cs ps)"

fun includesStr :: "string \<Rightarrow> string \<Rightarrow> bool" where
  \<comment> \<open>\<^verbatim>\<open>s.includes(p)\<close>\<close>
  "includesStr [] p = (p = [])"
| "includesStr (c # cs) p = (startsWith (c # cs) p \<or> includesStr cs p)"

section \<open>Data model\<close>

record meal =
  user_id :: string
  upload_time :: int
  calories :: "rat option"
  protein_g :: "rat option"
  carbs_g :: "rat option"
  fats_g :: "rat option"
  fiber_g :: "rat option"
  sodium_mg :: "rat option"
  sugar_g :: "rat option"
  liquids_ml :: "rat option"
  alcohol_g :: "rat option"
  caffeine_mg :: "rat option"
  processing_level :: "string option"
  food_category :: "string option"
  meal_name :: "string option"
  allergens_json :: "string list option"
  health_risk_notes :: "string option"

record eatingHours =
  eh_start :: string
  eh_end :: string

record weeklyTrends =
  tr_calories :: "int list"
  tr_protein :: "int list"
  tr_carbs :: "int list"
  tr_fats :: "int list"

record generalStats =
  averageCaloriesPerMeal :: int
  averageProteinPerMeal :: int
  mostCommonMealTime :: string
  averageMealsPerDay :: rat

record healthInsights =
  proteinAdequacy :: string
  calorieDistribution :: string
  fiberIntake :: string

datatype insightsValue = InsightList "string list" | PendingPromise

text \<open>
  The field \<^verbatim>\<open>insights\<close> is declared \<^verbatim>\<open>string[]\<close>. At run time it holds either
  such a list or a promise that nothing awaits (see \<open>generateInsights_later\<close>
  below).
\<close>

record NutritionStatistics =
  averageCaloriesDaily :: int
  calorieGoalAchievementPercent :: int
  averageProteinDaily :: int
  averageCarbsDaily :: int
  averageFatsDaily :: int
  averageFiberDaily :: int
  averageSodiumDaily :: int
  averageSugarDaily :: int
  averageFluidsDaily :: int
  processedFoodPercentage :: int
  alcoholCaffeineIntake :: rat
  vegetableFruitIntake :: int
  fullLoggingPercentage :: int
  allergenAlerts :: "string list"
  healthRiskPercentage :: int
  averageEatingHours :: eatingHours
  intermittentFastingHours :: "int option"
  missedMealsAlert :: int
  nutritionScore :: int
  weeklyTrends :: weeklyTrends
  insights :: insightsValue
  recommendations :: "string list"
  generalStats :: generalStats
  healthInsights :: healthInsights

text \<open>
  In \<open>intermittentFastingHours\<close> the value \<open>None\<close> stands for \<^verbatim>\<open>NaN\<close>, which
  \<^verbatim>\<open>calculateIntermittentFasting\<close> returns on a string that is not of the form
  \<^verbatim>\<open>HH:MM\<close>.
\<close>

datatype js_error = TypeError | Error string

section \<open>The statistics service\<close>

subsection \<open>Default statistics\<close>

definition getDefaultStatistics :: NutritionStatistics where
  "getDefaultStatistics =
     \<lparr> averageCaloriesDaily = 0,
       calorieGoalAchievementPercent = 0,
       averageProteinDaily = 0,
       averageCarbsDaily = 0,
       averageFatsDaily = 0,
       averageFiberDaily = 0,
       averageSodiumDaily = 0,
       averageSugarDaily = 0,
       averageFluidsDaily = 0,
       processedFoodPercentage = 0,
       alcoholCaffeineIntake = 0,
       vegetableFruitIntake = 0,
       fullLoggingPercentage = 0,
       allergenAlerts = [],
       healthRiskPercentage = 0,
       averageEatingHours = \<lparr> eh_start = ''08:00'', eh_end = ''20:00'' \<rparr>,
       intermittentFastingHours = Some 12,
       missedMealsAlert = 0,
       nutritionScore = 50,
       weeklyTrends =
         \<lparr> tr_calories = [0, 0, 0, 0, 0, 0, 0],
           tr_protein = [0, 0, 0, 0, 0, 0, 0],
           tr_carbs = [0, 0, 0, 0, 0, 0, 0],
           tr_fats = [0, 0, 0, 0, 0, 0, 0] \<rparr>,
       insights = InsightList [''Start logging meals to see personalized insights!''],
       recommendations =
         [''Begin by logging your meals regularly to get personalized recommendations.''],
       generalStats =
         \<lparr> averageCaloriesPerMeal = 0,
           averageProteinPerMeal = 0,
           mostCommonMealTime = ''12:00'',
           averageMealsPerDay = 0 \<rparr>,
       healthInsights =
         \<lparr> proteinAdequacy = ''Start logging meals to track protein intake'',
           calorieDistribution = ''Begin meal logging to analyze calorie patterns'',
           fiberIntake = ''Track your meals to monitor fiber consumption'' \<rparr> \<rparr>"

subsection \<open>Weekly trends\<close>

record dayTotal =
  dt_calories :: rat
  dt_protein :: rat
  dt_carbs :: rat
  dt_fats :: rat
  dt_count :: nat

definition days :: nat where
  "days = 7"

definition emptyDay :: dayTotal where
  "emptyDay = \<lparr> dt_calories = 0, dt_protein = 0, dt_carbs = 0, dt_fats = 0, dt_count = 0 \<rparr>"

definition dayIndexOf :: "int \<Rightarrow> meal \<Rightarrow> int" where
  \<comment> \<open>\<^verbatim>\<open>Math.floor((mealDate.getTime() - startDate.getTime()) / (1000 * 60 * 60 * 24))\<close>\<close>
  "dayIndexOf startDate m = \<lfloor>jsDiv (of_int (upload_time m - startDate)) (of_int msPerDay)\<rfloor>"

definition addToDay :: "int \<Rightarrow> meal \<Rightarrow> dayTotal list \<Rightarrow> dayTotal list" where
  \<comment> \<open>The body of the \<^verbatim>\<open>meals.forEach\<close> callback.\<close>
  "addToDay startDate m dayTotals =
     (let dayIndex = dayIndexOf startDate m in
      if dayIndex \<ge> 0 \<and> dayIndex < int days then
        (let i = nat dayIndex; d = dayTotals ! i in
         dayTotals[i := d\<lparr> dt_calories := jsAdd (dt_calories d) (orZero (calories m)),
                            dt_protein := jsAdd (dt_protein d) (orZero (protein_g m)),
                            dt_carbs := jsAdd (dt_carbs d) (orZero (carbs_g m)),
                            dt_fats := jsAdd (dt_fats d) (orZero (fats_g m)),
                            dt_count := dt_count d + 1 \<rparr>])
      else dayTotals)"

definition calculateWeeklyTrends :: "meal list \<Rightarrow> int \<Rightarrow> int \<Rightarrow> weeklyTrends" where
  "calculateWeeklyTrends meals startDate endDate =
     (let dayTotals = fold (addToDay startDate) meals (replicate days emptyDay) in
      \<lparr> tr_calories = map (\<lambda>day. js_round (dt_calories day)) dayTotals,
        tr_protein = map (\<lambda>day. js_round (dt_protein day)) dayTotals,
        tr_carbs = map (\<lambda>day. js_round (dt_carbs day)) dayTotals,
        tr_fats = map (\<lambda>day. js_round (dt_fats day)) dayTotals \<rparr>)"

subsection \<open>Nutrition score\<close>

record scoreData =
  sd_averageCaloriesDaily :: rat
  sd_averageProteinDaily :: rat
  sd_averageFiberDaily :: rat
  sd_processedFoodPercentage :: rat
  sd_calorieGoalAchievementPercent :: rat

definition calculateNutritionScore :: "scoreData \<Rightarrow> int" where
  "calculateNutritionScore data =
     (let score = (50 :: rat);
          score =
            (if sd_calorieGoalAchievementPercent data \<ge> 90 \<and> sd_calorieGoalAchievementPercent data \<le> 110
             then score + 20
             else if sd_calorieGoalAchievementPercent data \<ge> 80 \<and> sd_calorieGoalAchievementPercent data \<le> 120
             then score + 15
             else if sd_calorieGoalAchievementPercent data \<ge> 70 \<and> sd_calorieGoalAchievementPercent data \<le> 130
             then score + 10
             else score);
          score =
            (if sd_averageProteinDaily data \<ge> 120 then score + 15
             else if sd_averageProteinDaily data \<ge> 80 then score + 10
             else if sd_averageProteinDaily data \<ge> 50 then score + 5
             else score);
          score =
            (if sd_averageFiberDaily data \<ge> 25 then score + 10
             else if sd_averageFiberDaily data \<ge> 15 then score + 7
             else if sd_averageFiberDaily data \<ge> 10 then score + 5
             else score);
          score =
            (if sd_processedFoodPercentage data \<le> 10 then score + 5
             else if sd_processedFoodPercentage data \<le> 20 then score + 0
             else if sd_processedFoodPercentage data \<le> 40 then score - 5
             else score - 15)
      in max 1 (min 100 (js_round score)))"

subsection \<open>Insights and recommendations\<close>

record insightData =
  ins_averageCaloriesDaily :: rat
  ins_averageProteinDaily :: rat
  ins_averageFiberDaily :: rat
  ins_processedFoodPercentage :: rat
  ins_nutritionScore :: int
  ins_mealCount :: nat
  ins_totalDays :: int

definition generateInsights :: "insightData \<Rightarrow> string list" where
  "generateInsights data =
     (let insights = [];
          insights =
            (if ins_nutritionScore data \<ge> 80 then
               insights @ [''Excellent nutrition habits! You're maintaining a well-balanced diet.'']
             else if ins_nutritionScore data \<ge> 60 then
               insights @ [''Good nutrition foundation with room for improvement.'']
             else insights @ [''Your nutrition could benefit from some adjustments.'']);
          insights =
            (if ins_averageProteinDaily data \<ge> 120 then
               insights @ [''Great protein intake! This supports muscle maintenance and satiety.'']
             else if ins_averageProteinDaily data < 80 then
               insights @ [''Consider increasing protein intake for better muscle support and satiety.'']
             else insights);
          insights =
            (if ins_processedFoodPercentage data > 30 then
               insights @ [''High processed food intake detected. Try incorporating more whole foods.'']
             else if ins_processedFoodPercentage data < 15 then
               insights @ [''Excellent focus on whole foods! This supports overall health.'']
             else insights);
          mealsPerDay = jsDiv (of_nat (ins_mealCount data)) (of_int (ins_totalDays data));
          insights =
            (if mealsPerDay < 2 then
               insights @ [''Consider logging more meals for better nutrition tracking.'']
             else if mealsPerDay > 5 then
               insights @ [''Frequent eating pattern detected. Ensure portion control.'']
             else insights)
      in insights)"

text \<open>
  The class declares a static method \<^verbatim>\<open>generateInsights\<close> twice: the rule list
  above (line 353) and, further down (line 568), an asynchronous method that
  takes a user id. In a class body the later declaration replaces the earlier
  one, so \<^verbatim>\<open>this.generateInsights(...)\<close> in \<^verbatim>\<open>getNutritionStatistics\<close> calls the
  asynchronous method with the data object as its argument. The call returns a
  promise at once; \<^verbatim>\<open>getNutritionStatistics\<close> does not await it and stores it in
  the field \<^verbatim>\<open>insights\<close>. What the promise does later (a nested call of
  \<^verbatim>\<open>getNutritionStatistics\<close> with the data object as user id) is never read by
  the caller and is not modelled.
\<close>

definition generateInsights_later :: "'a \<Rightarrow> insightsValue" where
  \<comment> \<open>The asynchronous \<^verbatim>\<open>generateInsights\<close> of line 568, as its caller sees it.\<close>
  "generateInsights_later userId = PendingPromise"

record recommendationData =
  rec_averageCaloriesDaily :: rat
  rec_averageProteinDaily :: rat
  rec_averageFiberDaily :: rat
  rec_processedFoodPercentage :: rat
  rec_nutritionScore :: int

definition generateRecommendations :: "recommendationData \<Rightarrow> string list" where
  "generateRecommendations data =
     (let recommendations = [];
          recommendations =
            (if rec_averageProteinDaily data < 100 then
               recommendations @ [''Add lean proteins like chicken, fish, or legumes to your meals.'']
             else recommendations);
          recommendations =
            (if rec_averageFiberDaily data < 20 then
               recommendations @ [''Increase fiber intake with vegetables, fruits, and whole grains.'']
             else recommendations);
          recommendations =
            (if rec_processedFoodPercentage data > 25 then
               recommendations @ [''Replace processed foods with whole food alternatives when possible.'']
             else recommendations);
          recommendations =
            (if rec_averageCaloriesDaily data < 1500 then
               recommendations @ [''Consider if you're eating enough to meet your energy needs.'']
             else if rec_averageCaloriesDaily data > 2500 then
               recommendations @ [''Monitor portion sizes to align with your calorie goals.'']
             else recommendations)
      in recommendations @
           [''Stay hydrated and maintain regular meal timing for optimal metabolism.''])"

subsection \<open>Eating window and fasting estimate\<close>

definition formatHour :: "rat \<Rightarrow> string" where
  "formatHour hour =
     (let h = \<lfloor>hour\<rfloor>;
          m = js_round ((hour - of_int h) * 60)
      in padStart 2 CHR ''0'' (toString h) @ '':'' @ padStart 2 CHR ''0'' (toString m))"

definition hourOfDay :: "int \<Rightarrow> meal \<Rightarrow> rat" where
  \<comment> \<open>\<^verbatim>\<open>date.getHours() + date.getMinutes() / 60\<close>\<close>
  "hourOfDay tz m =
     of_int (getHours tz (upload_time m)) + of_int (getMinutes tz (upload_time m)) / 60"

definition calculateEatingHours :: "int \<Rightarrow> meal list \<Rightarrow> eatingHours" where
  "calculateEatingHours tz meals =
     (if meals = [] then \<lparr> eh_start = ''08:00'', eh_end = ''20:00'' \<rparr>
      else
        (let hours = map (hourOfDay tz) meals;
             earliestHour = fold min (tl hours) (hd hours);
             latestHour = fold max (tl hours) (hd hours)
         in \<lparr> eh_start = formatHour earliestHour, eh_end = formatHour latestHour \<rparr>))"

definition hourMinute :: "string \<Rightarrow> (nat \<times> nat) option" where
  \<comment> \<open>\<^verbatim>\<open>const [h, m] = s.split(':').map(Number)\<close>; \<open>None\<close> when either is \<^verbatim>\<open>NaN\<close>
      or missing.\<close>
  "hourMinute s =
     (case map jsNumber (splitOn CHR '':'' s) of
        Some h # Some m # _ \<Rightarrow> Some (h, m)
      | _ \<Rightarrow> None)"

definition calculateIntermittentFasting :: "eatingHours \<Rightarrow> int option" where
  "calculateIntermittentFasting eatingHours =
     (case (hourMinute (eh_start eatingHours), hourMinute (eh_end eatingHours)) of
        (Some (startH, startM), Some (endH, endM)) \<Rightarrow>
          (let startMinutes = int startH * 60 + int startM;
               endMinutes = int endH * 60 + int endM;
               fastingMinutes =
                 (if endMinutes > startMinutes then (24 * 60) - (endMinutes - startMinutes)
                  else startMinutes - endMinutes)
           in Some (js_round (of_int fastingMinutes / 60)))
      | _ \<Rightarrow> None)"

subsection \<open>Most common meal time\<close>

text \<open>
  \<^verbatim>\<open>hourCounts\<close> is an object keyed by the hour, a non-negative integer.
  \<^verbatim>\<open>Object.keys\<close> lists such keys in ascending numeric order whatever the order
  of insertion, so the object is an association list kept sorted by key.
\<close>

fun bumpCount :: "nat \<Rightarrow> (nat \<times> nat) list \<Rightarrow> (nat \<times> nat) list" where
  \<comment> \<open>\<^verbatim>\<open>hourCounts[hour] = (hourCounts[hour] || 0) + 1\<close>\<close>
  "bumpCount hour [] = [(hour, 1)]"
| "bumpCount hour ((k, c) # kcs) =
     (if hour = k then (k, c + 1) # kcs
      else if hour < k then (hour, 1) # (k, c) # kcs
      else (k, c) # bumpCount hour kcs)"

fun jsGreater :: "nat option \<Rightarrow> nat option \<Rightarrow> bool" where
  \<comment> \<open>\<^verbatim>\<open>a > b\<close> where a missing entry is \<^verbatim>\<open>undefined\<close>.\<close>
  "jsGreater (Some a) (Some b) = (a > b)"
| "jsGreater _ _ = False"

definition hourCountsOf :: "int \<Rightarrow> meal list \<Rightarrow> (nat \<times> nat) list" where
  \<comment> \<open>The object \<^verbatim>\<open>hourCounts\<close> after the \<^verbatim>\<open>meals.forEach\<close> loop.\<close>
  "hourCountsOf tz meals =
     fold (\<lambda>meal hc. bumpCount (nat (getHours tz (upload_time meal))) hc) meals []"

definition getMostCommonMealTime :: "int \<Rightarrow> meal list \<Rightarrow> js_error + string" where
  \<comment> \<open>\<^verbatim>\<open>reduce\<close> without an initial value throws a \<^verbatim>\<open>TypeError\<close> on an empty array.\<close>
  "getMostCommonMealTime tz meals =
     (if meals = [] then Inr ''12:00''
      else
        (let hourCounts = hourCountsOf tz meals
         in case map fst hourCounts of
              [] \<Rightarrow> Inl TypeError
            | k # ks \<Rightarrow>
                (let mostCommonHour =
                       fold (\<lambda>b a. if jsGreater (map_of hourCounts a) (map_of hourCounts b)
                                    then a else b) ks k
                 in Inr (padStart 2 CHR ''0'' (showNat mostCommonHour) @ '':00''))))"

subsection \<open>Secondary metrics\<close>

definition calculateAlcoholCaffeine :: "meal list \<Rightarrow> rat" where
  "calculateAlcoholCaffeine meals =
     fold (\<lambda>meal total.
             jsAdd (jsAdd total (orZero (alcohol_g meal))) (jsDiv (orZero (caffeine_mg meal)) 100))
       meals 0"

definition lowerIncludes :: "string option \<Rightarrow> string \<Rightarrow> bool" where
  \<comment> \<open>\<^verbatim>\<open>field?.toLowerCase().includes(p)\<close>\<close>
  "lowerIncludes field p = (case field of None \<Rightarrow> False | Some s \<Rightarrow> includesStr (toLowerCase s) p)"

definition percentOf :: "meal list \<Rightarrow> (meal \<Rightarrow> bool) \<Rightarrow> int" where
  \<comment> \<open>\<^verbatim>\<open>meals.length > 0 ? Math.round((meals.filter(p).length / meals.length) * 100) : 0\<close>\<close>
  "percentOf meals p =
     (if length meals > 0
      then js_round (jsMul (jsDiv (of_nat (length (filter p meals))) (of_nat (length meals))) 100)
      else 0)"

definition calculateVegetableFruitIntake :: "meal list \<Rightarrow> int" where
  "calculateVegetableFruitIntake meals =
     percentOf meals (\<lambda>meal.
       lowerIncludes (food_category meal) ''vegetable'' \<or>
       lowerIncludes (food_category meal) ''fruit'' \<or>
       lowerIncludes (meal_name meal) ''salad'' \<or>
       lowerIncludes (meal_name meal) ''fruit'')"

definition calculateFullLoggingPercentage :: "meal list \<Rightarrow> int \<Rightarrow> int" where
  "calculateFullLoggingPercentage meals totalDays =
     (let expectedMeals = totalDays * 3
      in min 100 (js_round (jsMul (jsDiv (of_nat (length meals)) (of_int expectedMeals)) 100)))"

definition extractAllergenAlerts :: "meal list \<Rightarrow> string list" where
  "extractAllergenAlerts meals =
     fold (\<lambda>meal allergens.
             case allergens_json meal of
               None \<Rightarrow> allergens
             | Some as \<Rightarrow>
                 fold (\<lambda>allergen acc. if allergen \<in> set acc then acc else acc @ [allergen])
                   as allergens)
       meals []"

definition calculateHealthRiskPercentage :: "meal list \<Rightarrow> int" where
  "calculateHealthRiskPercentage meals =
     percentOf meals (\<lambda>meal.
       case health_risk_notes meal of None \<Rightarrow> False | Some notes \<Rightarrow> length notes > 0)"

definition calculateMissedMeals :: "int \<Rightarrow> nat \<Rightarrow> int" where
  "calculateMissedMeals totalDays mealCount =
     (let expectedMeals = totalDays * 3 in max 0 (expectedMeals - int mealCount))"

definition getProteinAdequacyInsight :: "rat \<Rightarrow> string" where
  "getProteinAdequacyInsight averageProtein =
     (if averageProtein \<ge> 120 then
        ''Excellent protein intake supporting muscle health and satiety''
      else if averageProtein \<ge> 80 then
        ''Good protein levels, consider slight increase for optimal benefits''
      else ''Protein intake below recommended levels - focus on lean proteins'')"

definition getCalorieDistributionInsight :: "rat \<Rightarrow> string" where
  "getCalorieDistributionInsight averageCalories =
     (if averageCalories \<ge> 1800 \<and> averageCalories \<le> 2200 then
        ''Calorie intake appears well-balanced for most adults''
      else if averageCalories < 1500 then
        ''Calorie intake may be too low - ensure adequate energy for daily needs''
      else ''Higher calorie intake - monitor portion sizes and activity levels'')"

definition getFiberIntakeInsight :: "rat \<Rightarrow> string" where
  "getFiberIntakeInsight averageFiber =
     (if averageFiber \<ge> 25 then
        ''Excellent fiber intake supporting digestive health''
      else if averageFiber \<ge> 15 then
        ''Good fiber levels, aim for 25g daily for optimal benefits''
      else ''Low fiber intake - increase vegetables, fruits, and whole grains'')"

subsection \<open>The aggregation\<close>

record totals =
  t_calories :: rat
  t_protein :: rat
  t_carbs :: rat
  t_fats :: rat
  t_fiber :: rat
  t_sodium :: rat
  t_sugar :: rat
  t_fluids :: rat

definition addMeal :: "meal \<Rightarrow> totals \<Rightarrow> totals" where
  \<comment> \<open>The callback of \<^verbatim>\<open>meals.reduce\<close>.\<close>
  "addMeal m acc =
     \<lparr> t_calories = jsAdd (t_calories acc) (orZero (calories m)),
       t_protein = jsAdd (t_protein acc) (orZero (protein_g m)),
       t_carbs = jsAdd (t_carbs acc) (orZero (carbs_g m)),
       t_fats = jsAdd (t_fats acc) (orZero (fats_g m)),
       t_fiber = jsAdd (t_fiber acc) (orZero (fiber_g m)),
       t_sodium = jsAdd (t_sodium acc) (orZero (sodium_mg m)),
       t_sugar = jsAdd (t_sugar acc) (orZero (sugar_g m)),
       t_fluids = jsAdd (t_fluids acc) (orZero (liquids_ml m)) \<rparr>"

definition zeroTotals :: totals where
  "zeroTotals =
     \<lparr> t_calories = 0, t_protein = 0, t_carbs = 0, t_fats = 0,
       t_fiber = 0, t_sodium = 0, t_sugar = 0, t_fluids = 0 \<rparr>"

definition totalDaysOf :: "int \<Rightarrow> int \<Rightarrow> int" where
  \<comment> \<open>\<^verbatim>\<open>Math.max(1, Math.ceil((endDate.getTime() - startDate.getTime()) / (1000 * 60 * 60 * 24)))\<close>\<close>
  "totalDaysOf startDate endDate =
     max 1 (js_ceil (jsDiv (of_int (endDate - startDate)) (of_int msPerDay)))"

definition isProcessed :: "meal \<Rightarrow> bool" where
  "isProcessed m =
     (processing_level m = Some ''HIGHLY_PROCESSED'' \<or> processing_level m = Some ''PROCESSED'')"

definition statisticsOfMeals :: "int \<Rightarrow> int \<Rightarrow> int \<Rightarrow> meal list \<Rightarrow> js_error + NutritionStatistics" where
  \<comment> \<open>The body of \<^verbatim>\<open>getNutritionStatistics\<close> after the query, from the test for an
      empty result to the \<^verbatim>\<open>return\<close>. \<open>Inl\<close> is an exception thrown inside it.\<close>
  "statisticsOfMeals tz startDate endDate meals =
     (if length meals = 0 then Inr getDefaultStatistics
      else
        (let totalDays = totalDaysOf startDate endDate;
             totals = fold addMeal meals zeroTotals;
             averageCaloriesDaily' = jsDiv (t_calories totals) (of_int totalDays);
             averageProteinDaily' = jsDiv (t_protein totals) (of_int totalDays);
             averageCarbsDaily' = jsDiv (t_carbs totals) (of_int totalDays);
             averageFatsDaily' = jsDiv (t_fats totals) (of_int totalDays);
             averageFiberDaily' = jsDiv (t_fiber totals) (of_int totalDays);
             averageSodiumDaily' = jsDiv (t_sodium totals) (of_int totalDays);
             averageSugarDaily' = jsDiv (t_sugar totals) (of_int totalDays);
             averageFluidsDaily' = jsDiv (t_fluids totals) (of_int totalDays);
             calorieGoal = 2000;
             calorieGoalAchievementPercent' =
               min 100 (jsMul (jsDiv averageCaloriesDaily' calorieGoal) 100);
             processedFoodCount = length (filter isProcessed meals);
             processedFoodPercentage' =
               (if length meals > 0
                then jsMul (jsDiv (of_nat processedFoodCount) (of_nat (length meals))) 100
                else 0);
             weeklyTrends' = calculateWeeklyTrends meals startDate endDate;
             nutritionScore' =
               calculateNutritionScore
                 \<lparr> sd_averageCaloriesDaily = averageCaloriesDaily',
                   sd_averageProteinDaily = averageProteinDaily',
                   sd_averageFiberDaily = averageFiberDaily',
                   sd_processedFoodPercentage = processedFoodPercentage',
                   sd_calorieGoalAchievementPercent = calorieGoalAchievementPercent' \<rparr>;
             insights' =
               generateInsights_later
                 \<lparr> ins_averageCaloriesDaily = averageCaloriesDaily',
                   ins_averageProteinDaily = averageProteinDaily',
                   ins_averageFiberDaily = averageFiberDaily',
                   ins_processedFoodPercentage = processedFoodPercentage',
                   ins_nutritionScore = nutritionScore',
                   ins_mealCount = length meals,
                   ins_totalDays = totalDays \<rparr>;
             recommendations' =
               generateRecommendations
                 \<lparr> rec_averageCaloriesDaily = averageCaloriesDaily',
                   rec_averageProteinDaily = averageProteinDaily',
                   rec_averageFiberDaily = averageFiberDaily',
                   rec_processedFoodPercentage = processedFoodPercentage',
                   rec_nutritionScore = nutritionScore' \<rparr>;
             eatingHours = calculateEatingHours tz meals;
             intermittentFastingHours' = calculateIntermittentFasting eatingHours;
             averageCaloriesPerMeal' =
               (if length meals > 0 then jsDiv (t_calories totals) (of_nat (length meals))
                else 0);
             averageProteinPerMeal' =
               (if length meals > 0 then jsDiv (t_protein totals) (of_nat (length meals))
                else 0)
         in case getMostCommonMealTime tz meals of
              Inl e \<Rightarrow> Inl e
            | Inr mostCommonMealTime' \<Rightarrow>
                (let averageMealsPerDay' = jsDiv (of_nat (length meals)) (of_int totalDays)
                 in Inr
                   \<lparr> averageCaloriesDaily = js_round averageCaloriesDaily',
                     calorieGoalAchievementPercent = js_round calorieGoalAchievementPercent',
                     averageProteinDaily = js_round averageProteinDaily',
                     averageCarbsDaily = js_round averageCarbsDaily',
                     averageFatsDaily = js_round averageFatsDaily',
                     averageFiberDaily = js_round averageFiberDaily',
                     averageSodiumDaily = js_round averageSodiumDaily',
                     averageSugarDaily = js_round averageSugarDaily',
                     averageFluidsDaily = js_round averageFluidsDaily',
                     processedFoodPercentage = js_round processedFoodPercentage',
                     alcoholCaffeineIntake = calculateAlcoholCaffeine meals,
                     vegetableFruitIntake = calculateVegetableFruitIntake meals,
                     fullLoggingPercentage = calculateFullLoggingPercentage meals totalDays,
                     allergenAlerts = extractAllergenAlerts meals,
                     healthRiskPercentage = calculateHealthRiskPercentage meals,
                     averageEatingHours = eatingHours,
                     intermittentFastingHours = intermittentFastingHours',
                     missedMealsAlert = calculateMissedMeals totalDays (length meals),
                     nutritionScore = nutritionScore',
                     weeklyTrends = weeklyTrends',
                     insights = insights',
                     recommendations = recommendations',
                     generalStats =
                       \<lparr> averageCaloriesPerMeal = js_round averageCaloriesPerMeal',
                         averageProteinPerMeal = js_round averageProteinPerMeal',
                         mostCommonMealTime = mostCommonMealTime',
                         averageMealsPerDay =
                           jsDiv (of_int (js_round (jsMul averageMealsPerDay' 10))) 10 \<rparr>,
                     healthInsights =
                       \<lparr> proteinAdequacy = getProteinAdequacyInsight averageProteinDaily',
                         calorieDistribution = getCalorieDistributionInsight averageCaloriesDaily',
                         fiberIntake = getFiberIntakeInsight averageFiberDaily' \<rparr> \<rparr>)))"

definition startDateOf :: "string \<Rightarrow> int \<Rightarrow> int" where
  \<comment> \<open>The \<^verbatim>\<open>switch (period)\<close>: it has no \<^verbatim>\<open>default\<close> branch, so any other value
      leaves \<^verbatim>\<open>startDate\<close> at the current instant.\<close>
  "startDateOf period now =
     (if period = ''week'' then now - 7 * msPerDay
      else if period = ''month'' then now - 30 * msPerDay
      else if period = ''custom'' then now - 14 * msPerDay
      else now)"

definition getNutritionStatistics ::
  "(string \<Rightarrow> int \<Rightarrow> int \<Rightarrow> js_error + meal list) \<Rightarrow> int \<Rightarrow> int \<Rightarrow> string \<Rightarrow> string
     \<Rightarrow> js_error + NutritionStatistics" where
  \<comment> \<open>\<open>findMany userId startDate endDate\<close> is the query
      \<^verbatim>\<open>prisma.meal.findMany\<close>, an external collaborator: \<open>Inr\<close> the meals
      found, \<open>Inl\<close> a rejected promise. \<open>now\<close> is the instant both \<^verbatim>\<open>new Date()\<close>
      calls read. The \<^verbatim>\<open>catch\<close> block replaces every exception by one generic
      error.\<close>
  "getNutritionStatistics findMany tz now userId period =
     (let endDate = now;
          startDate = startDateOf period now
      in case findMany userId startDate endDate of
           Inl e \<Rightarrow> Inl (Error ''Failed to generate nutrition statistics'')
         | Inr meals \<Rightarrow>
             (case statisticsOfMeals tz startDate endDate meals of
                Inl e \<Rightarrow> Inl (Error ''Failed to generate nutrition statistics'')
              | Inr statistics \<Rightarrow> Inr statistics))"

section \<open>Notions used to state the properties\<close>

definition sampleMeal :: "int \<Rightarrow> rat option \<Rightarrow> rat option \<Rightarrow> meal" where
  \<comment> \<open>A meal uploaded at \<open>t\<close> with the given calories and protein and every other
      column null; used for concrete instances.\<close>
  "sampleMeal t c p =
     \<lparr> user_id = ''u'', upload_time = t, calories = c, protein_g = p, carbs_g = None,
       fats_g = None, fiber_g = None, sodium_mg = None, sugar_g = None, liquids_ml = None,
       alcohol_g = None, caffeine_mg = None, processing_level = None, food_category = None,
       meal_name = None, allergens_json = None, health_risk_notes = None \<rparr>"

definition fixedResult :: "meal list \<Rightarrow> string \<Rightarrow> int \<Rightarrow> int \<Rightarrow> js_error + meal list" where
  \<comment> \<open>A query that succeeds with the same meals for every user and window; used
      for concrete instances.\<close>
  "fixedResult meals userId startDate endDate = Inr meals"

definition sampleScoreData :: scoreData where
  "sampleScoreData =
     \<lparr> sd_averageCaloriesDaily = 2000, sd_averageProteinDaily = 0, sd_averageFiberDaily = 0,
       sd_processedFoodPercentage = 0, sd_calorieGoalAchievementPercent = 100 \<rparr>"

definition trendSample :: "meal list" where
  \<comment> \<open>One meal on day 0 and one on day 8 after a start date of 0.\<close>
  "trendSample = [sampleMeal 0 (Some 500) (Some 20), sampleMeal 691200000 (Some 300) (Some 10)]"

definition tieSample :: "meal list" where
  \<comment> \<open>One meal at 08:00 and one at 13:00.\<close>
  "tieSample = [sampleMeal 28800000 None None, sampleMeal 46800000 None None]"

definition windowSample :: "meal list" where
  \<comment> \<open>One meal at 09:00 and one at 21:00.\<close>
  "windowSample = [sampleMeal 32400000 None None, sampleMeal 75600000 None None]"

definition proteinSample :: "meal list" where
  \<comment> \<open>Three meals on one day with 30.4, 33.8 and 55.8 g of protein and 2000 kcal
      in all.\<close>
  "proteinSample =
     [sampleMeal 0 (Some 700) (Some (304 / 10)), sampleMeal 0 (Some 700) (Some (338 / 10)),
      sampleMeal 0 (Some 600) (Some (558 / 10))]"

definition goalSample :: "meal list" where
  \<comment> \<open>One meal of 2030 kcal.\<close>
  "goalSample = [sampleMeal 0 (Some 2030) None]"

definition decimalSample :: "meal list" where
  \<comment> \<open>Three meals on day 0 with 12.2, 4.6 and 4.7 kcal.\<close>
  "decimalSample =
     [sampleMeal 0 (Some (122 / 10)) None, sampleMeal 0 (Some (46 / 10)) None,
      sampleMeal 0 (Some (47 / 10)) None]"

definition totalOf :: "(meal \<Rightarrow> rat option) \<Rightarrow> meal list \<Rightarrow> rat" where
  \<comment> \<open>The sum of one nutrient column over a meal list as the code accumulates
      it: from 0, in list order, each addition rounded to a double, a null
      counted as 0.\<close>
  "totalOf f meals = fold (\<lambda>m acc. jsAdd acc (orZero (f m))) meals 0"

definition amount :: "rat option \<Rightarrow> rat" where
  \<comment> \<open>The stored value of a column, a null counted as 0.\<close>
  "amount v = (case v of None \<Rightarrow> 0 | Some x \<Rightarrow> x)"

definition exactTotal :: "(meal \<Rightarrow> rat option) \<Rightarrow> meal list \<Rightarrow> rat" where
  \<comment> \<open>The mathematical sum of one nutrient column over a meal list.\<close>
  "exactTotal f meals = sum_list (map (\<lambda>m. amount (f m)) meals)"

definition wholeAmount :: "rat option \<Rightarrow> bool" where
  \<comment> \<open>The value is a non-negative whole number (or null).\<close>
  "wholeAmount v = (0 \<le> amount v \<and> of_int \<lfloor>amount v\<rfloor> = amount v)"

definition dailyAverage :: "(meal \<Rightarrow> rat option) \<Rightarrow> int \<Rightarrow> int \<Rightarrow> meal list \<Rightarrow> rat" where
  \<comment> \<open>The daily average of a nutrient before \<^verbatim>\<open>Math.round\<close>, the local
      \<^verbatim>\<open>average...Daily\<close> of the code: the accumulated total divided by the
      number of days, in doubles.\<close>
  "dailyAverage f startDate endDate meals =
     jsDiv (totalOf f meals) (of_int (totalDaysOf startDate endDate))"

definition goalPercent :: "int \<Rightarrow> int \<Rightarrow> meal list \<Rightarrow> rat" where
  \<comment> \<open>The capped goal achievement before \<^verbatim>\<open>Math.round\<close>, from which the score
      is computed.\<close>
  "goalPercent startDate endDate meals =
     min 100 (jsMul (jsDiv (dailyAverage calories startDate endDate meals) 2000) 100)"

definition processedPercent :: "meal list \<Rightarrow> rat" where
  \<comment> \<open>The share of processed meals in percent, before \<^verbatim>\<open>Math.round\<close>.\<close>
  "processedPercent meals =
     jsMul (jsDiv (of_nat (length (filter isProcessed meals))) (of_nat (length meals))) 100"

text \<open>
  The four bands of the score as the specification words them, with inclusive
  boundaries. They are compared with \<open>calculateNutritionScore\<close> below.
\<close>

definition goalBonus :: "rat \<Rightarrow> rat" where
  "goalBonus g =
     (if 90 \<le> g \<and> g \<le> 110 then 20
      else if 80 \<le> g \<and> g \<le> 120 then 15
      else if 70 \<le> g \<and> g \<le> 130 then 10
      else 0)"

definition proteinBonus :: "rat \<Rightarrow> rat" where
  "proteinBonus p = (if 120 \<le> p then 15 else if 80 \<le> p then 10 else if 50 \<le> p then 5 else 0)"

definition fiberBonus :: "rat \<Rightarrow> rat" where
  "fiberBonus f = (if 25 \<le> f then 10 else if 15 \<le> f then 7 else if 10 \<le> f then 5 else 0)"

definition processedBonus :: "rat \<Rightarrow> rat" where
  "processedBonus q = (if q \<le> 10 then 5 else if q \<le> 20 then 0 else if q \<le> 40 then - 5 else - 15)"

definition bandScore :: "rat \<Rightarrow> rat \<Rightarrow> rat \<Rightarrow> rat \<Rightarrow> int" where
  \<comment> \<open>The score as the specification words it: base 50 plus the four band
      bonuses, rounded and clamped to 1..100.\<close>
  "bandScore g p f q =
     max 1 (min 100 (js_round (50 + goalBonus g + proteinBonus p + fiberBonus f + processedBonus q)))"

definition inWindow :: "int \<Rightarrow> meal \<Rightarrow> bool" where
  \<comment> \<open>The day index of the meal lies in 0..6.\<close>
  "inWindow startDate m = (0 \<le> dayIndexOf startDate m \<and> dayIndexOf startDate m < 7)"

definition onDay :: "int \<Rightarrow> nat \<Rightarrow> meal list \<Rightarrow> meal list" where
  \<comment> \<open>The meals whose day index is \<open>i\<close>.\<close>
  "onDay startDate i meals = filter (\<lambda>m. dayIndexOf startDate m = int i) meals"

definition minuteOfDay :: "int \<Rightarrow> meal \<Rightarrow> int" where
  \<comment> \<open>The local time of day of a meal, in minutes after midnight.\<close>
  "minuteOfDay tz m = getHours tz (upload_time m) * 60 + getMinutes tz (upload_time m)"

definition earliestMinute :: "int \<Rightarrow> meal list \<Rightarrow> int" where
  \<comment> \<open>The earliest time of day at which a meal of the list was uploaded.\<close>
  "earliestMinute tz meals = Min (minuteOfDay tz ` set meals)"

definition latestMinute :: "int \<Rightarrow> meal list \<Rightarrow> int" where
  "latestMinute tz meals = Max (minuteOfDay tz ` set meals)"

definition hhmm :: "int \<Rightarrow> string" where
  \<comment> \<open>A minute of the day written \<^verbatim>\<open>HH:MM\<close>.\<close>
  "hhmm x =
     padStart 2 CHR ''0'' (toString (x div 60)) @ '':'' @ padStart 2 CHR ''0'' (toString (x mod 60))"

definition mealHour :: "int \<Rightarrow> meal \<Rightarrow> nat" where
  "mealHour tz m = nat (getHours tz (upload_time m))"

definition mealsAtHour :: "int \<Rightarrow> meal list \<Rightarrow> nat \<Rightarrow> nat" where
  \<comment> \<open>How many meals fall in the hour bucket \<open>h\<close>.\<close>
  "mealsAtHour tz meals h = length (filter (\<lambda>m. mealHour tz m = h) meals)"

text \<open>
  The insight rules as the specification words them, one definition per rule;
  a rule that stays silent contributes the empty list.
\<close>

definition scoreTierInsight :: "int \<Rightarrow> string" where
  "scoreTierInsight score =
     (if score \<ge> 80 then ''Excellent nutrition habits! You're maintaining a well-balanced diet.''
      else if score \<ge> 60 then ''Good nutrition foundation with room for improvement.''
      else ''Your nutrition could benefit from some adjustments.'')"

definition scoreTierStrings :: "string list" where
  "scoreTierStrings =
     [''Excellent nutrition habits! You're maintaining a well-balanced diet.'',
      ''Good nutrition foundation with room for improvement.'',
      ''Your nutrition could benefit from some adjustments.'']"

definition proteinInsight :: "rat \<Rightarrow> string list" where
  "proteinInsight p =
     (if p \<ge> 120 then [''Great protein intake! This supports muscle maintenance and satiety.'']
      else if p < 80 then
        [''Consider increasing protein intake for better muscle support and satiety.'']
      else [])"

definition processedInsight :: "rat \<Rightarrow> string list" where
  "processedInsight q =
     (if q > 30 then
        [''High processed food intake detected. Try incorporating more whole foods.'']
      else if q < 15 then [''Excellent focus on whole foods! This supports overall health.'']
      else [])"

definition frequencyInsight :: "nat \<Rightarrow> int \<Rightarrow> string list" where
  "frequencyInsight mealCount totalDays =
     (if jsDiv (of_nat mealCount) (of_int totalDays) < 2 then
        [''Consider logging more meals for better nutrition tracking.'']
      else if jsDiv (of_nat mealCount) (of_int totalDays) > 5 then
        [''Frequent eating pattern detected. Ensure portion control.'']
      else [])"

section \<open>Auxiliary facts\<close>

subsection \<open>\<^verbatim>\<open>Math.round\<close>\<close>

lemma js_round_mono: "x \<le> y \<Longrightarrow> js_round x \<le> js_round y"
  by (simp add: js_round_def floor_mono)

lemma js_round_of_int [simp]: "js_round (of_int k) = k"
  unfolding js_round_def by linarith

subsection \<open>Rounding to a double\<close>

lemma roundHalfEven_of_int: "roundHalfEven (of_int j) = j"
  by (simp add: roundHalfEven_def)

lemma toDouble_of_int:
  assumes "\<bar>k\<bar> < 2 ^ 53"
  shows "toDouble (of_int k) = of_int k"
proof (cases "k = 0")
  case True
  then show ?thesis by (simp add: toDouble_def)
next
  case False
  define e where "e = max (binade (of_int k) - 52) (- 1074)"
  have "1 \<le> \<bar>k\<bar>" using False by linarith
  then have abs1: "(1::rat) \<le> \<bar>of_int k\<bar>"
    by (metis of_int_abs of_int_1_le_iff)
  have fl: "\<lfloor>\<bar>(of_int k :: rat)\<bar>\<rfloor> = \<bar>k\<bar>"
    by (metis floor_of_int of_int_abs)
  have "bitlen \<bar>k\<bar> \<le> 53"
    using assms by (simp add: bitlen_le_iff_power)
  then have "binade (of_int k) \<le> 52"
    using abs1 by (simp add: binade_def fl)
  then have e0: "e \<le> 0" unfolding e_def by simp
  define n where "n = nat (- e)"
  have p: "pow2 e = 1 / 2 ^ n"
  proof (cases "e = 0")
    case True
    then show ?thesis by (simp add: pow2_def n_def)
  next
    case False
    then show ?thesis using e0 by (simp add: pow2_def n_def)
  qed
  have "(of_int k :: rat) / pow2 e = of_int (k * 2 ^ n)"
    unfolding p by simp
  then have "roundHalfEven (of_int k / pow2 e) = k * 2 ^ n"
    by (simp only: roundHalfEven_of_int)
  then have "toDouble (of_int k) = of_int (k * 2 ^ n) * (1 / 2 ^ n)"
    using False unfolding toDouble_def Let_def e_def[symmetric] p by simp
  then show ?thesis by simp
qed

lemma jsAdd_ints:
  "\<bar>a + b\<bar> < 2 ^ 53 \<Longrightarrow> jsAdd (of_int a) (of_int b) = of_int (a + b)"
  unfolding jsAdd_def using toDouble_of_int[of "a + b"] by simp

lemma toDouble_0: "toDouble 0 = 0"
  by (simp add: toDouble_def)

lemma toDouble_numeral_7: "toDouble 7 = 7"
  using toDouble_of_int[of 7] by simp

lemma toDouble_numeral_14: "toDouble 14 = 14"
  using toDouble_of_int[of 14] by simp

lemma toDouble_numeral_30: "toDouble 30 = 30"
  using toDouble_of_int[of 30] by simp

subsection \<open>The score bands\<close>

lemma goalBonus_range: "0 \<le> goalBonus g \<and> goalBonus g \<le> 20"
  by (simp add: goalBonus_def)
lemma proteinBonus_range: "0 \<le> proteinBonus g \<and> proteinBonus g \<le> 15"
  by (simp add: proteinBonus_def)
lemma fiberBonus_range: "0 \<le> fiberBonus g \<and> fiberBonus g \<le> 10"
  by (simp add: fiberBonus_def)
lemma processedBonus_range: "- 15 \<le> processedBonus g \<and> processedBonus g \<le> 5"
  by (simp add: processedBonus_def)
lemma goalBonus_int: "goalBonus g \<in> \<int>"
  by (simp add: goalBonus_def)
lemma proteinBonus_int: "proteinBonus g \<in> \<int>"
  by (simp add: proteinBonus_def)
lemma fiberBonus_int: "fiberBonus g \<in> \<int>"
  by (simp add: fiberBonus_def)
lemma processedBonus_int: "processedBonus g \<in> \<int>"
  by (simp add: processedBonus_def)

lemma calculateNutritionScore_bands:
  "calculateNutritionScore data =
     bandScore (sd_calorieGoalAchievementPercent data) (sd_averageProteinDaily data)
       (sd_averageFiberDaily data) (sd_processedFoodPercentage data)"
  unfolding calculateNutritionScore_def bandScore_def goalBonus_def proteinBonus_def
      fiberBonus_def processedBonus_def Let_def
  by (simp only: if_distrib[of "\<lambda>x. x + _"] if_distrib[of "\<lambda>x. x - _"] add.assoc
        add_0_right diff_conv_add_uminus if_distrib[of "\<lambda>x. _ + x"] cong: if_cong)

lemma bandScore_unclamped:
  "of_int (bandScore g p f q) = 50 + goalBonus g + proteinBonus p + fiberBonus f + processedBonus q"
proof -
  obtain a b c d where e: "goalBonus g = of_int a" "proteinBonus p = of_int b"
    "fiberBonus f = of_int c" "processedBonus q = of_int d"
    using goalBonus_int[of g] proteinBonus_int[of p] fiberBonus_int[of f] processedBonus_int[of q]
    unfolding Ints_def by auto
  have "(0::rat) \<le> of_int a" "(of_int a :: rat) \<le> 20" "(0::rat) \<le> of_int b" "(of_int b :: rat) \<le> 15"
     "(0::rat) \<le> of_int c" "(of_int c :: rat) \<le> 10" "(-15::rat) \<le> of_int d" "(of_int d :: rat) \<le> 5"
    using goalBonus_range[of g] proteinBonus_range[of p] fiberBonus_range[of f]
      processedBonus_range[of q] unfolding e by blast+
  then have r: "0 \<le> a" "a \<le> 20" "0 \<le> b" "b \<le> 15" "0 \<le> c" "c \<le> 10" "-15 \<le> d" "d \<le> 5"
    by linarith+
  have s: "50 + goalBonus g + proteinBonus p + fiberBonus f + processedBonus q
      = (of_int (50 + a + b + c + d) :: rat)"
    unfolding e by simp
  have "bandScore g p f q = max 1 (min 100 (50 + a + b + c + d))"
    unfolding bandScore_def s js_round_of_int ..
  also have "\<dots> = 50 + a + b + c + d" using r by linarith
  finally show ?thesis unfolding s by simp
qed

lemma bandScore_range: "35 \<le> bandScore g p f q \<and> bandScore g p f q \<le> 100"
proof -
  have "(35::rat) \<le> of_int (bandScore g p f q) \<and> of_int (bandScore g p f q) \<le> (100::rat)"
    unfolding bandScore_unclamped
    using goalBonus_range[of g] proteinBonus_range[of p] fiberBonus_range[of f]
      processedBonus_range[of q] by linarith
  then show ?thesis by linarith
qed

lemma proteinBonus_mono: "p1 \<le> p2 \<Longrightarrow> proteinBonus p1 \<le> proteinBonus p2"
  by (simp add: proteinBonus_def)

lemma bandScore_mono_protein: "p1 \<le> p2 \<Longrightarrow> bandScore g p1 f q \<le> bandScore g p2 f q"
proof -
  assume "p1 \<le> p2"
  then have "(of_int (bandScore g p1 f q) :: rat) \<le> of_int (bandScore g p2 f q)"
    unfolding bandScore_unclamped using proteinBonus_mono[of p1 p2] by simp
  then show ?thesis by simp
qed

subsection \<open>The aggregation on a non-empty meal list\<close>

lemma bumpCount_nonempty: "bumpCount h hc \<noteq> []"
  by (cases "(h, hc)" rule: bumpCount.cases) auto

lemma fold_bumpCount_nonempty:
  "meals \<noteq> [] \<Longrightarrow> fold (\<lambda>meal hc. bumpCount (g meal) hc) meals acc \<noteq> []"
proof (induction meals arbitrary: acc)
  case Nil
  then show ?case by simp
next
  case (Cons m meals)
  show ?case
  proof (cases "meals = []")
    case True
    then show ?thesis by (simp add: bumpCount_nonempty)
  next
    case False
    then show ?thesis using Cons.IH by simp
  qed
qed

lemma hourCountsOf_nonempty: "meals \<noteq> [] \<Longrightarrow> hourCountsOf tz meals \<noteq> []"
  unfolding hourCountsOf_def by (rule fold_bumpCount_nonempty)

lemma getMostCommonMealTime_returns:
  assumes "meals \<noteq> []"
  shows "\<exists>t. getMostCommonMealTime tz meals = Inr t"
proof -
  obtain kc kcs where "hourCountsOf tz meals = kc # kcs"
    using hourCountsOf_nonempty[OF assms, of tz] by (cases "hourCountsOf tz meals") auto
  then show ?thesis using assms
    by (simp add: getMostCommonMealTime_def Let_def)
qed

lemma fold_addMeal:
  "fold addMeal meals acc =
     \<lparr> t_calories = fold (\<lambda>m a. jsAdd a (orZero (calories m))) meals (t_calories acc),
       t_protein = fold (\<lambda>m a. jsAdd a (orZero (protein_g m))) meals (t_protein acc),
       t_carbs = fold (\<lambda>m a. jsAdd a (orZero (carbs_g m))) meals (t_carbs acc),
       t_fats = fold (\<lambda>m a. jsAdd a (orZero (fats_g m))) meals (t_fats acc),
       t_fiber = fold (\<lambda>m a. jsAdd a (orZero (fiber_g m))) meals (t_fiber acc),
       t_sodium = fold (\<lambda>m a. jsAdd a (orZero (sodium_mg m))) meals (t_sodium acc),
       t_sugar = fold (\<lambda>m a. jsAdd a (orZero (sugar_g m))) meals (t_sugar acc),
       t_fluids = fold (\<lambda>m a. jsAdd a (orZero (liquids_ml m))) meals (t_fluids acc) \<rparr>"
  by (induction meals arbitrary: acc) (simp_all add: addMeal_def)

lemma totals_calories: "t_calories (fold addMeal meals zeroTotals) = totalOf calories meals"
  by (simp add: fold_addMeal zeroTotals_def totalOf_def)
lemma totals_protein: "t_protein (fold addMeal meals zeroTotals) = totalOf protein_g meals"
  by (simp add: fold_addMeal zeroTotals_def totalOf_def)
lemma totals_fiber: "t_fiber (fold addMeal meals zeroTotals) = totalOf fiber_g meals"
  by (simp add: fold_addMeal zeroTotals_def totalOf_def)

lemma statisticsOfMeals_fields:
  assumes "meals \<noteq> []"
  shows "\<exists>st. statisticsOfMeals tz startDate endDate meals = Inr st \<and>
    nutritionScore st =
      calculateNutritionScore
        \<lparr> sd_averageCaloriesDaily = dailyAverage calories startDate endDate meals,
          sd_averageProteinDaily = dailyAverage protein_g startDate endDate meals,
          sd_averageFiberDaily = dailyAverage fiber_g startDate endDate meals,
          sd_processedFoodPercentage = processedPercent meals,
          sd_calorieGoalAchievementPercent = goalPercent startDate endDate meals \<rparr> \<and>
    insights st = PendingPromise \<and>
    calorieGoalAchievementPercent st = js_round (goalPercent startDate endDate meals) \<and>
    averageCaloriesDaily st = js_round (dailyAverage calories startDate endDate meals) \<and>
    weeklyTrends st = calculateWeeklyTrends meals startDate endDate \<and>
    averageEatingHours st = calculateEatingHours tz meals \<and>
    intermittentFastingHours st = calculateIntermittentFasting (calculateEatingHours tz meals) \<and>
    Inr (mostCommonMealTime (generalStats st)) = getMostCommonMealTime tz meals"
proof -
  obtain t where t: "getMostCommonMealTime tz meals = Inr t"
    using getMostCommonMealTime_returns[OF assms] by blast
  show ?thesis
    using assms
    by (simp add: statisticsOfMeals_def Let_def t totals_calories totals_protein totals_fiber
        dailyAverage_def goalPercent_def processedPercent_def generateInsights_later_def)
qed

lemma statisticsOfMeals_score:
  assumes "meals \<noteq> []"
  shows "\<exists>st. statisticsOfMeals tz startDate endDate meals = Inr st \<and>
    nutritionScore st =
      bandScore (goalPercent startDate endDate meals) (dailyAverage protein_g startDate endDate meals)
        (dailyAverage fiber_g startDate endDate meals) (processedPercent meals)"
  using statisticsOfMeals_fields[OF assms, of tz startDate endDate]
  by (auto simp: calculateNutritionScore_bands)

lemma statisticsOfMeals_returns: "\<exists>st. statisticsOfMeals tz startDate endDate meals = Inr st"
proof (cases "meals = []")
  case True
  then show ?thesis by (simp add: statisticsOfMeals_def)
next
  case False
  then show ?thesis using statisticsOfMeals_fields[of meals tz startDate endDate] by blast
qed

lemma js_round_min100: "js_round (min 100 x) = min 100 (js_round x)"
proof (cases "x \<le> 100")
  case True
  then have "js_round x \<le> js_round 100" by (rule js_round_mono)
  moreover have "js_round 100 = 100" using js_round_of_int[of 100] by simp
  ultimately show ?thesis using True by (simp add: min_def)
next
  case False
  then have "js_round 100 \<le> js_round x" by (intro js_round_mono) simp
  moreover have "js_round 100 = 100" using js_round_of_int[of 100] by simp
  ultimately show ?thesis using False by (simp add: min_def)
qed

lemma startDateOf_other:
  "period \<noteq> ''week'' \<Longrightarrow> period \<noteq> ''month'' \<Longrightarrow> period \<noteq> ''custom'' \<Longrightarrow>
     startDateOf period now = now"
  by (simp add: startDateOf_def)

lemma totalDaysOf_same: "totalDaysOf now now = 1"
  by (simp add: totalDaysOf_def js_ceil_def jsDiv_def toDouble_0)

lemma getNutritionStatistics_found:
  assumes "findMany userId (startDateOf period now) now = Inr meals"
  shows "getNutritionStatistics findMany tz now userId period
     = statisticsOfMeals tz (startDateOf period now) now meals"
proof -
  obtain st where "statisticsOfMeals tz (startDateOf period now) now meals = Inr st"
    using statisticsOfMeals_returns by blast
  then show ?thesis using assms by (simp add: getNutritionStatistics_def Let_def)
qed

lemma totalDays_of_supported_periods:
  "totalDaysOf (startDateOf ''week'' now) now = 7 \<and>
   totalDaysOf (startDateOf ''month'' now) now = 30 \<and>
   totalDaysOf (startDateOf ''custom'' now) now = 14"
  by (simp add: totalDaysOf_def startDateOf_def js_ceil_def msPerDay_def jsDiv_def
      toDouble_numeral_7 toDouble_numeral_14 toDouble_numeral_30)

subsection \<open>The insight rules\<close>

lemma generateInsights_rules:
  "generateInsights data =
     scoreTierInsight (ins_nutritionScore data) #
       (proteinInsight (ins_averageProteinDaily data) @
        processedInsight (ins_processedFoodPercentage data) @
        frequencyInsight (ins_mealCount data) (ins_totalDays data))"
  by (simp add: generateInsights_def scoreTierInsight_def proteinInsight_def
      processedInsight_def frequencyInsight_def Let_def)

lemma scoreTierInsight_in: "scoreTierInsight s \<in> set scoreTierStrings"
  by (simp add: scoreTierInsight_def scoreTierStrings_def)

lemma proteinInsight_no_tier: "x \<in> set (proteinInsight p) \<Longrightarrow> x \<notin> set scoreTierStrings"
  by (auto simp: proteinInsight_def scoreTierStrings_def split: if_splits)

lemma processedInsight_no_tier: "x \<in> set (processedInsight p) \<Longrightarrow> x \<notin> set scoreTierStrings"
  by (auto simp: processedInsight_def scoreTierStrings_def split: if_splits)

lemma frequencyInsight_no_tier: "x \<in> set (frequencyInsight n d) \<Longrightarrow> x \<notin> set scoreTierStrings"
  by (auto simp: frequencyInsight_def scoreTierStrings_def split: if_splits)

lemma filter_none: "(\<And>x. x \<in> set xs \<Longrightarrow> \<not> P x) \<Longrightarrow> filter P xs = []"
  by (induction xs) auto

lemma generateInsights_one_tier:
  "filter (\<lambda>s. s \<in> set scoreTierStrings) (generateInsights data)
     = [scoreTierInsight (ins_nutritionScore data)]"
proof -
  let ?rest = "proteinInsight (ins_averageProteinDaily data) @
        processedInsight (ins_processedFoodPercentage data) @
        frequencyInsight (ins_mealCount data) (ins_totalDays data)"
  have "filter (\<lambda>s. s \<in> set scoreTierStrings) ?rest = []"
    by (rule filter_none)
      (auto dest: proteinInsight_no_tier processedInsight_no_tier frequencyInsight_no_tier)
  then show ?thesis
    unfolding generateInsights_rules using scoreTierInsight_in by simp
qed

subsection \<open>The hour buckets\<close>

lemma bumpCount_keys: "set (map fst (bumpCount h hc)) = insert h (set (map fst hc))"
  by (induction h hc rule: bumpCount.induct) auto

lemma bumpCount_sorted:
  "sorted_wrt (<) (map fst hc) \<Longrightarrow> sorted_wrt (<) (map fst (bumpCount h hc))"
proof (induction h hc rule: bumpCount.induct)
  case (1 hour)
  then show ?case by simp
next
  case (2 hour k c kcs)
  have keys: "set (map fst (bumpCount hour kcs)) = insert hour (set (map fst kcs))"
    by (rule bumpCount_keys)
  show ?case
  proof (cases "hour = k")
    case True
    then show ?thesis using 2 by simp
  next
    case False
    show ?thesis
    proof (cases "hour < k")
      case True
      then show ?thesis using 2 False by auto
    next
      case ge: False
      then have "k < hour" using False by simp
      moreover have "sorted_wrt (<) (map fst (bumpCount hour kcs))"
        using 2 False ge by simp
      ultimately show ?thesis using 2(2) False ge keys by auto
    qed
  qed
qed

lemma map_of_above:
  "sorted_wrt (<) (map fst ((k, c) # kcs)) \<Longrightarrow> h \<le> k \<Longrightarrow> map_of kcs (h::nat) = None"
  by (auto simp: map_of_eq_None_iff)

lemma bumpCount_map_of:
  "sorted_wrt (<) (map fst hc) \<Longrightarrow>
   map_of (bumpCount h hc) k =
     (if k = h then Some (case map_of hc h of None \<Rightarrow> 1 | Some c \<Rightarrow> c + 1) else map_of hc k)"
proof (induction h hc rule: bumpCount.induct)
  case (1 hour)
  then show ?case by simp
next
  case (2 hour k' c kcs)
  show ?case
  proof (cases "hour = k'")
    case True
    then show ?thesis by simp
  next
    case False
    show ?thesis
    proof (cases "hour < k'")
      case True
      then have "map_of kcs hour = None"
        using map_of_above[OF 2(2), of hour] by simp
      then show ?thesis using True False by simp
    next
      case ge: False
      have "sorted_wrt (<) (map fst kcs)" using 2(2) by simp
      then have "map_of (bumpCount hour kcs) k =
         (if k = hour then Some (case map_of kcs hour of None \<Rightarrow> 1 | Some c \<Rightarrow> c + 1)
          else map_of kcs k)"
        using 2(1)[OF False ge] by simp
      then show ?thesis using False ge by auto
    qed
  qed
qed

lemma fold_bumpCount_sorted:
  "sorted_wrt (<) (map fst acc) \<Longrightarrow>
   sorted_wrt (<) (map fst (fold (\<lambda>meal hc. bumpCount (g meal) hc) meals acc))"
  by (induction meals arbitrary: acc) (simp_all add: bumpCount_sorted)

lemma fold_bumpCount_map_of:
  "sorted_wrt (<) (map fst acc) \<Longrightarrow>
   map_of (fold (\<lambda>meal hc. bumpCount (g meal) hc) meals acc) k =
     (case map_of acc k of
        None \<Rightarrow> (if length (filter (\<lambda>m. g m = k) meals) = 0 then None
                  else Some (length (filter (\<lambda>m. g m = k) meals)))
      | Some c \<Rightarrow> Some (c + length (filter (\<lambda>m. g m = k) meals)))"
proof (induction meals arbitrary: acc)
  case Nil
  then show ?case by (simp split: option.splits)
next
  case (Cons m meals)
  have s: "sorted_wrt (<) (map fst (bumpCount (g m) acc))"
    using Cons.prems by (rule bumpCount_sorted)
  show ?case
    using Cons.IH[OF s] bumpCount_map_of[OF Cons.prems, of "g m" k]
    by (simp split: option.splits)
qed

lemma hourCountsOf_sorted: "sorted_wrt (<) (map fst (hourCountsOf tz meals))"
  unfolding hourCountsOf_def by (rule fold_bumpCount_sorted) simp

lemma hourCountsOf_map_of:
  "map_of (hourCountsOf tz meals) h =
     (if mealsAtHour tz meals h = 0 then None else Some (mealsAtHour tz meals h))"
  unfolding hourCountsOf_def mealsAtHour_def mealHour_def
  using fold_bumpCount_map_of[of "[]" "\<lambda>m. nat (getHours tz (upload_time m))" meals h]
  by simp

text \<open>The reduce: the accumulator is replaced unless it is strictly greater.\<close>

lemma reduce_last_max:
  assumes "sorted_wrt (<) ((a::nat) # ks)"
    and "\<And>x. x \<in> set (a # ks) \<Longrightarrow> g x = Some ((c x)::nat)"
  shows "fold (\<lambda>b a. if jsGreater (g a) (g b) then a else b) ks a \<in> set (a # ks) \<and>
    (\<forall>x \<in> set (a # ks). c x \<le> c (fold (\<lambda>b a. if jsGreater (g a) (g b) then a else b) ks a)) \<and>
    (\<forall>x \<in> set (a # ks). c x = c (fold (\<lambda>b a. if jsGreater (g a) (g b) then a else b) ks a)
        \<longrightarrow> x \<le> fold (\<lambda>b a. if jsGreater (g a) (g b) then a else b) ks a)"
  using assms
proof (induction ks arbitrary: a)
  case Nil
  then show ?case by simp
next
  case (Cons b ks)
  let ?f = "\<lambda>b a. if jsGreater (g a) (g b) then a else b"
  have ga: "g a = Some (c a)" and gb: "g b = Some (c b)" using Cons.prems(2) by simp_all
  show ?case
  proof (cases "c a > c b")
    case True
    then have step: "fold ?f (b # ks) a = fold ?f ks a" using ga gb by simp
    have "sorted_wrt (<) (a # ks)" using Cons.prems(1) by auto
    moreover have "\<And>x. x \<in> set (a # ks) \<Longrightarrow> g x = Some (c x)" using Cons.prems(2) by auto
    ultimately have IH: "fold ?f ks a \<in> set (a # ks) \<and>
      (\<forall>x \<in> set (a # ks). c x \<le> c (fold ?f ks a)) \<and>
      (\<forall>x \<in> set (a # ks). c x = c (fold ?f ks a) \<longrightarrow> x \<le> fold ?f ks a)"
      by (rule Cons.IH)
    then have "c a \<le> c (fold ?f ks a)" by simp
    then have "c b < c (fold ?f ks a)" using True by simp
    then show ?thesis unfolding step using IH by auto
  next
    case False
    then have step: "fold ?f (b # ks) a = fold ?f ks b" using ga gb by simp
    have "sorted_wrt (<) (b # ks)" using Cons.prems(1) by auto
    moreover have "\<And>x. x \<in> set (b # ks) \<Longrightarrow> g x = Some (c x)" using Cons.prems(2) by auto
    ultimately have IH: "fold ?f ks b \<in> set (b # ks) \<and>
      (\<forall>x \<in> set (b # ks). c x \<le> c (fold ?f ks b)) \<and>
      (\<forall>x \<in> set (b # ks). c x = c (fold ?f ks b) \<longrightarrow> x \<le> fold ?f ks b)"
      by (rule Cons.IH)
    then have "c b \<le> c (fold ?f ks b)" by simp
    then have ca: "c a \<le> c (fold ?f ks b)" using False by simp
    have "\<forall>x \<in> set (b # ks). a < x" using Cons.prems(1) by auto
    then have "a < fold ?f ks b" using IH by blast
    then show ?thesis unfolding step using IH ca by auto
  qed
qed

lemma mealsAtHour_pos_lt_24: "0 < mealsAtHour tz meals h \<Longrightarrow> h < 24"
proof -
  assume "0 < mealsAtHour tz meals h"
  then have "filter (\<lambda>m. mealHour tz m = h) meals \<noteq> []"
    unfolding mealsAtHour_def by simp
  then obtain m where "mealHour tz m = h"
    by (metis (mono_tags, lifting) filter_False)
  then show ?thesis
    unfolding mealHour_def getHours_def
    by (metis nat_less_numeral_power_cancel_iff nat_numeral pos_mod_bound zero_less_numeral
        power_one_right zless_nat_conj)
qed

lemma getMostCommonMealTime_last_max:
  assumes "meals \<noteq> []"
  shows "\<exists>h. getMostCommonMealTime tz meals = Inr (padStart 2 CHR ''0'' (showNat h) @ '':00'') \<and>
    h < 24 \<and> 0 < mealsAtHour tz meals h \<and>
    (\<forall>h'. mealsAtHour tz meals h' \<le> mealsAtHour tz meals h) \<and>
    (\<forall>h'. mealsAtHour tz meals h' = mealsAtHour tz meals h \<longrightarrow> h' \<le> h)"
proof -
  let ?hc = "hourCountsOf tz meals"
  let ?c = "mealsAtHour tz meals"
  let ?f = "\<lambda>b a. if jsGreater (map_of ?hc a) (map_of ?hc b) then a else b"
  obtain k ks where keys: "map fst ?hc = k # ks"
    using hourCountsOf_nonempty[OF assms, of tz] by (cases "map fst ?hc") auto
  let ?r = "fold ?f ks k"
  have sorted: "sorted_wrt (<) (k # ks)"
    using hourCountsOf_sorted[of tz meals] unfolding keys .
  have inkeys: "map_of ?hc x = Some (?c x) \<and> 0 < ?c x" if "x \<in> set (k # ks)" for x
  proof -
    have "x \<in> fst ` set ?hc" using that keys by (metis list.set_map)
    then have "map_of ?hc x \<noteq> None" by (simp add: map_of_eq_None_iff)
    then show ?thesis using hourCountsOf_map_of[of tz meals x] by (auto split: if_splits)
  qed
  have notkeys: "?c x = 0" if "x \<notin> set (k # ks)" for x
  proof -
    have "x \<notin> fst ` set ?hc" using that keys by (metis list.set_map)
    then have "map_of ?hc x = None" by (simp add: map_of_eq_None_iff)
    then show ?thesis using hourCountsOf_map_of[of tz meals x] by (auto split: if_splits)
  qed
  have red: "?r \<in> set (k # ks) \<and> (\<forall>x \<in> set (k # ks). ?c x \<le> ?c ?r) \<and>
    (\<forall>x \<in> set (k # ks). ?c x = ?c ?r \<longrightarrow> x \<le> ?r)"
    using reduce_last_max[OF sorted, of "map_of ?hc" ?c] inkeys by blast
  then have pos: "0 < ?c ?r" using inkeys by blast
  have mx: "?c h' \<le> ?c ?r" for h'
    using red notkeys[of h'] by (cases "h' \<in> set (k # ks)") auto
  have tie: "h' \<le> ?r" if "?c h' = ?c ?r" for h'
    using red notkeys[of h'] pos that by (cases "h' \<in> set (k # ks)") auto
  have res: "getMostCommonMealTime tz meals = Inr (padStart 2 CHR ''0'' (showNat ?r) @ '':00'')"
    using assms keys by (simp add: getMostCommonMealTime_def Let_def)
  show ?thesis
    using res pos mx tie mealsAtHour_pos_lt_24[OF pos] by blast
qed

subsection \<open>Formatting and parsing the eating window\<close>

lemma digit_cases: "d < 10 \<Longrightarrow> d = 0 \<or> d = 1 \<or> d = 2 \<or> d = 3 \<or> d = 4 \<or> d = 5 \<or> d = 6 \<or> d = 7 \<or> d = 8 \<or> d = (9::nat)"
  by arith

lemma digitVal_digitChar: "d < 10 \<Longrightarrow> digitVal (digitChar d) = Some d"
  using digit_cases[of d] by (auto simp: digitVal_def digitChar_def)

lemma digitChar_not_colon: "digitChar d \<noteq> CHR '':''"
  by (simp add: digitChar_def)

lemma showNat_two_digits:
  "n < 100 \<Longrightarrow> padStart 2 CHR ''0'' (showNat n) = [digitChar (n div 10), digitChar (n mod 10)]"
proof (cases "n < 10")
  case True
  then show ?thesis by (simp add: showNat.simps[of n] padStart_def digitChar_def)
next
  case False
  assume "n < 100"
  then have "n div 10 < 10" by simp
  then show ?thesis using False
    by (simp add: showNat.simps[of n] showNat.simps[of "n div 10"] padStart_def)
qed

lemma jsNumber_two_digits:
  "a < 10 \<Longrightarrow> b < 10 \<Longrightarrow> jsNumber [digitChar a, digitChar b] = Some (10 * a + b)"
  by (simp add: jsNumber_def digitVal_digitChar)

lemma jsNumber_padded: "n < 100 \<Longrightarrow> jsNumber (padStart 2 CHR ''0'' (showNat n)) = Some n"
proof -
  assume n: "n < 100"
  then have "n div 10 < 10" "n mod 10 < 10" by simp_all
  then have "jsNumber [digitChar (n div 10), digitChar (n mod 10)] = Some (10 * (n div 10) + n mod 10)"
    by (rule jsNumber_two_digits)
  then show ?thesis using n by (simp add: showNat_two_digits)
qed

lemma splitOn_two_digits:
  "n < 100 \<Longrightarrow> k < 100 \<Longrightarrow>
   splitOn CHR '':'' (padStart 2 CHR ''0'' (showNat n) @ '':'' @ padStart 2 CHR ''0'' (showNat k)) =
     [padStart 2 CHR ''0'' (showNat n), padStart 2 CHR ''0'' (showNat k)]"
  by (simp add: showNat_two_digits digitChar_not_colon)

lemma hourMinute_hhmm:
  assumes "0 \<le> x" and "x < 1440"
  shows "hourMinute (hhmm x) = Some (nat (x div 60), nat (x mod 60))"
proof -
  have h: "0 \<le> x div 60" "nat (x div 60) < 100" using assms by auto
  have m: "0 \<le> x mod 60" "nat (x mod 60) < 100" using assms by auto
  have nn: "\<not> x div 60 < 0" "\<not> x mod 60 < 0" using h by linarith+
  have "hhmm x = padStart 2 CHR ''0'' (showNat (nat (x div 60))) @ '':'' @
      padStart 2 CHR ''0'' (showNat (nat (x mod 60)))"
    unfolding hhmm_def toString_def using nn by (simp only: if_False)
  then show ?thesis
    using h m
    by (simp only: hourMinute_def splitOn_two_digits list.map jsNumber_padded list.case option.case)
qed

lemma formatHour_minutes: "formatHour (of_int x / 60) = hhmm x"
proof -
  have fl: "\<lfloor>(of_int x :: rat) / 60\<rfloor> = x div 60"
    using floor_divide_of_int_eq[of x 60, where ?'a = rat] by simp
  have "(of_int x :: rat) = of_int (x div 60) * 60 + of_int (x mod 60)"
    by (metis div_mult_mod_eq of_int_add of_int_mult of_int_numeral)
  then have "((of_int x :: rat) / 60 - of_int (x div 60)) * 60 = of_int (x mod 60)"
    by (simp add: field_simps)
  then show ?thesis
    by (simp only: formatHour_def Let_def fl hhmm_def js_round_of_int)
qed

lemma hourOfDay_minutes: "hourOfDay tz m = of_int (minuteOfDay tz m) / 60"
  by (simp add: hourOfDay_def minuteOfDay_def field_simps)

lemma minuteOfDay_range: "0 \<le> minuteOfDay tz m \<and> minuteOfDay tz m < 1440"
proof -
  have "0 \<le> getHours tz (upload_time m)" "getHours tz (upload_time m) < 24"
    "0 \<le> getMinutes tz (upload_time m)" "getMinutes tz (upload_time m) < 60"
    by (simp_all add: getHours_def getMinutes_def)
  then show ?thesis unfolding minuteOfDay_def by linarith
qed

lemma earliest_hour:
  assumes "meals \<noteq> []"
  shows "fold min (tl (map (hourOfDay tz) meals)) (hd (map (hourOfDay tz) meals))
     = of_int (earliestMinute tz meals) / 60"
proof -
  let ?g = "\<lambda>x::int. (of_int x :: rat) / 60"
  obtain m ms where ms: "meals = m # ms" using assms by (cases meals) auto
  have "fold min (tl (map (hourOfDay tz) meals)) (hd (map (hourOfDay tz) meals))
      = Min (set (map (hourOfDay tz) meals))"
    unfolding ms list.map list.sel by (rule Min.set_eq_fold[symmetric])
  also have "set (map (hourOfDay tz) meals) = ?g ` (minuteOfDay tz ` set meals)"
    by (auto simp: hourOfDay_minutes image_iff)
  also have "Min (?g ` (minuteOfDay tz ` set meals)) = ?g (Min (minuteOfDay tz ` set meals))"
    by (rule mono_Min_commute[symmetric]) (auto simp: mono_def divide_right_mono assms)
  finally show ?thesis unfolding earliestMinute_def .
qed

lemma latest_hour:
  assumes "meals \<noteq> []"
  shows "fold max (tl (map (hourOfDay tz) meals)) (hd (map (hourOfDay tz) meals))
     = of_int (latestMinute tz meals) / 60"
proof -
  let ?g = "\<lambda>x::int. (of_int x :: rat) / 60"
  obtain m ms where ms: "meals = m # ms" using assms by (cases meals) auto
  have "fold max (tl (map (hourOfDay tz) meals)) (hd (map (hourOfDay tz) meals))
      = Max (set (map (hourOfDay tz) meals))"
    unfolding ms list.map list.sel by (rule Max.set_eq_fold[symmetric])
  also have "set (map (hourOfDay tz) meals) = ?g ` (minuteOfDay tz ` set meals)"
    by (auto simp: hourOfDay_minutes image_iff)
  also have "Max (?g ` (minuteOfDay tz ` set meals)) = ?g (Max (minuteOfDay tz ` set meals))"
    by (rule mono_Max_commute[symmetric]) (auto simp: mono_def divide_right_mono assms)
  finally show ?thesis unfolding latestMinute_def .
qed

lemma earliestMinute_range:
  "meals \<noteq> [] \<Longrightarrow> 0 \<le> earliestMinute tz meals \<and> earliestMinute tz meals < 1440"
proof -
  assume "meals \<noteq> []"
  then have "earliestMinute tz meals \<in> minuteOfDay tz ` set meals"
    unfolding earliestMinute_def by (intro Min_in) auto
  then show ?thesis using minuteOfDay_range by auto
qed

lemma latestMinute_range:
  "meals \<noteq> [] \<Longrightarrow> 0 \<le> latestMinute tz meals \<and> latestMinute tz meals < 1440"
proof -
  assume "meals \<noteq> []"
  then have "latestMinute tz meals \<in> minuteOfDay tz ` set meals"
    unfolding latestMinute_def by (intro Max_in) auto
  then show ?thesis using minuteOfDay_range by auto
qed

lemma calculateEatingHours_minutes:
  assumes "meals \<noteq> []"
  shows "calculateEatingHours tz meals =
     \<lparr> eh_start = hhmm (earliestMinute tz meals), eh_end = hhmm (latestMinute tz meals) \<rparr>"
  using assms
  by (simp add: calculateEatingHours_def Let_def earliest_hour latest_hour formatHour_minutes)

lemma calculateIntermittentFasting_hhmm:
  assumes "0 \<le> s" "s < 1440" "0 \<le> e" "e < 1440"
  shows "calculateIntermittentFasting \<lparr> eh_start = hhmm s, eh_end = hhmm e \<rparr> =
     Some (js_round (of_int (if e > s then 24 * 60 - (e - s) else s - e) / 60))"
proof -
  have "int (nat (s div 60)) * 60 + int (nat (s mod 60)) = s"
    using assms by (simp add: pos_imp_zdiv_nonneg_iff)
  moreover have "int (nat (e div 60)) * 60 + int (nat (e mod 60)) = e"
    using assms by (simp add: pos_imp_zdiv_nonneg_iff)
  ultimately show ?thesis
    using assms
    by (simp add: calculateIntermittentFasting_def hourMinute_hhmm Let_def)
qed

subsection \<open>The day buckets of the weekly trend\<close>

lemma addToDay_length: "length (addToDay startDate m dayTotals) = length dayTotals"
  by (simp add: addToDay_def Let_def)

lemma fold_addToDay_length: "length (fold (addToDay startDate) meals acc) = length acc"
  by (induction meals arbitrary: acc) (simp_all add: addToDay_length)

lemma onDay_Cons:
  "onDay startDate i (m # ms) =
     (if dayIndexOf startDate m = int i then m # onDay startDate i ms else onDay startDate i ms)"
  by (simp add: onDay_def)

lemma addToDay_nth:
  assumes "length acc = 7" and "i < 7"
  shows "addToDay startDate m acc ! i =
    (if dayIndexOf startDate m = int i then
       (acc ! i)\<lparr> dt_calories := jsAdd (dt_calories (acc ! i)) (orZero (calories m)),
                  dt_protein := jsAdd (dt_protein (acc ! i)) (orZero (protein_g m)),
                  dt_carbs := jsAdd (dt_carbs (acc ! i)) (orZero (carbs_g m)),
                  dt_fats := jsAdd (dt_fats (acc ! i)) (orZero (fats_g m)),
                  dt_count := dt_count (acc ! i) + 1 \<rparr>
     else acc ! i)"
proof (cases "dayIndexOf startDate m = int i")
  case True
  then have "nat (dayIndexOf startDate m) = i" by simp
  then show ?thesis using assms True by (simp add: addToDay_def Let_def days_def)
next
  case False
  then have "nat (dayIndexOf startDate m) \<noteq> i \<or> dayIndexOf startDate m < 0" by linarith
  then show ?thesis using assms False by (auto simp: addToDay_def Let_def days_def)
qed

lemma fold_addToDay_nth:
  assumes "length acc = 7" and "i < 7"
  shows "dt_calories (fold (addToDay startDate) meals acc ! i)
           = fold (\<lambda>m a. jsAdd a (orZero (calories m))) (onDay startDate i meals)
               (dt_calories (acc ! i)) \<and>
         dt_protein (fold (addToDay startDate) meals acc ! i)
           = fold (\<lambda>m a. jsAdd a (orZero (protein_g m))) (onDay startDate i meals)
               (dt_protein (acc ! i)) \<and>
         dt_carbs (fold (addToDay startDate) meals acc ! i)
           = fold (\<lambda>m a. jsAdd a (orZero (carbs_g m))) (onDay startDate i meals)
               (dt_carbs (acc ! i)) \<and>
         dt_fats (fold (addToDay startDate) meals acc ! i)
           = fold (\<lambda>m a. jsAdd a (orZero (fats_g m))) (onDay startDate i meals)
               (dt_fats (acc ! i))"
  using assms
proof (induction meals arbitrary: acc)
  case Nil
  then show ?case by (simp add: onDay_def)
next
  case (Cons m meals)
  have len: "length (addToDay startDate m acc) = 7"
    using Cons.prems(1) by (simp add: addToDay_length)
  show ?case
    using Cons.IH[OF len Cons.prems(2)] addToDay_nth[OF Cons.prems, of startDate m]
    by (simp add: onDay_Cons)
qed

lemma dayTotals_nth:
  assumes "i < 7"
  shows "dt_calories (fold (addToDay startDate) meals (replicate days emptyDay) ! i)
           = totalOf calories (onDay startDate i meals) \<and>
         dt_protein (fold (addToDay startDate) meals (replicate days emptyDay) ! i)
           = totalOf protein_g (onDay startDate i meals) \<and>
         dt_carbs (fold (addToDay startDate) meals (replicate days emptyDay) ! i)
           = totalOf carbs_g (onDay startDate i meals) \<and>
         dt_fats (fold (addToDay startDate) meals (replicate days emptyDay) ! i)
           = totalOf fats_g (onDay startDate i meals)"
proof -
  have "length (replicate days emptyDay) = 7" by (simp add: days_def)
  from fold_addToDay_nth[OF this assms, of startDate meals]
  show ?thesis using assms by (simp add: days_def emptyDay_def totalOf_def)
qed

lemma map_dayTotals:
  assumes "\<And>i. i < 7 \<Longrightarrow> g (fold (addToDay startDate) meals (replicate days emptyDay) ! i) = h i"
  shows "map g (fold (addToDay startDate) meals (replicate days emptyDay)) = map h [0..<7]"
proof (rule nth_equalityI)
  show "length (map g (fold (addToDay startDate) meals (replicate days emptyDay))) = length (map h [0..<7])"
    by (simp add: fold_addToDay_length days_def)
next
  fix i
  assume "i < length (map g (fold (addToDay startDate) meals (replicate days emptyDay)))"
  then have i: "i < 7" by (simp add: fold_addToDay_length days_def)
  then have "i < length (fold (addToDay startDate) meals (replicate days emptyDay))"
    by (simp add: fold_addToDay_length days_def)
  then show "map g (fold (addToDay startDate) meals (replicate days emptyDay)) ! i = map h [0..<7] ! i"
    using assms[OF i] i by simp
qed

lemma calculateWeeklyTrends_buckets:
  "tr_calories (calculateWeeklyTrends meals startDate endDate)
     = map (\<lambda>i. js_round (totalOf calories (onDay startDate i meals))) [0..<7] \<and>
   tr_protein (calculateWeeklyTrends meals startDate endDate)
     = map (\<lambda>i. js_round (totalOf protein_g (onDay startDate i meals))) [0..<7] \<and>
   tr_carbs (calculateWeeklyTrends meals startDate endDate)
     = map (\<lambda>i. js_round (totalOf carbs_g (onDay startDate i meals))) [0..<7] \<and>
   tr_fats (calculateWeeklyTrends meals startDate endDate)
     = map (\<lambda>i. js_round (totalOf fats_g (onDay startDate i meals))) [0..<7]"
  unfolding calculateWeeklyTrends_def Let_def
  by (simp add: map_dayTotals dayTotals_nth)

text \<open>Exact sums over the window.\<close>

lemma exactTotal_Cons: "exactTotal f (m # ms) = amount (f m) + exactTotal f ms"
  by (simp add: exactTotal_def)

lemma exactTotal_Nil: "exactTotal f [] = 0"
  by (simp add: exactTotal_def)

lemma sum_one_day:
  "sum_list (map (\<lambda>i. if d = int i then v else (0::rat)) [0..<n]) = (if 0 \<le> d \<and> d < int n then v else 0)"
  by (induction n) auto

lemma window_total:
  "sum_list (map (\<lambda>i. exactTotal f (onDay startDate i meals)) [0..<7])
     = exactTotal f (filter (inWindow startDate) meals)"
proof (induction meals)
  case Nil
  then show ?case by (simp add: onDay_def exactTotal_Nil)
next
  case (Cons m meals)
  have "sum_list (map (\<lambda>i. exactTotal f (onDay startDate i (m # meals))) [0..<7])
      = sum_list (map (\<lambda>i. (if dayIndexOf startDate m = int i then amount (f m) else 0)
                              + exactTotal f (onDay startDate i meals)) [0..<7])"
    by (intro arg_cong[where f = sum_list] map_cong refl) (simp add: onDay_Cons exactTotal_Cons)
  also have "\<dots> = sum_list (map (\<lambda>i. if dayIndexOf startDate m = int i then amount (f m) else 0) [0..<7])
      + sum_list (map (\<lambda>i. exactTotal f (onDay startDate i meals)) [0..<7])"
    by (rule sum_list_addf)
  also have "\<dots> = (if inWindow startDate m then amount (f m) else 0)
      + exactTotal f (filter (inWindow startDate) meals)"
    unfolding Cons.IH sum_one_day by (simp add: inWindow_def)
  finally show ?case by (simp add: exactTotal_Cons)
qed

lemma exactTotal_nonneg:
  "(\<And>m. m \<in> set ms \<Longrightarrow> wholeAmount (f m)) \<Longrightarrow> 0 \<le> exactTotal f ms"
  by (induction ms) (simp_all add: exactTotal_Cons exactTotal_Nil wholeAmount_def)

lemma exactTotal_Ints:
  "(\<And>m. m \<in> set ms \<Longrightarrow> wholeAmount (f m)) \<Longrightarrow> exactTotal f ms \<in> \<int>"
proof (induction ms)
  case Nil
  then show ?case by (simp add: exactTotal_Nil)
next
  case (Cons m ms)
  have "amount (f m) \<in> \<int>"
    using Cons.prems[of m] by (metis Ints_of_int list.set_intros(1) wholeAmount_def)
  moreover have "exactTotal f ms \<in> \<int>" using Cons by simp
  ultimately show ?case by (simp add: exactTotal_Cons)
qed

lemma exactTotal_filter_le:
  "(\<And>m. m \<in> set ms \<Longrightarrow> P m \<Longrightarrow> wholeAmount (f m)) \<Longrightarrow>
     exactTotal f (filter (\<lambda>m. P m \<and> Q m) ms) \<le> exactTotal f (filter P ms)"
proof (induction ms)
  case Nil
  then show ?case by (simp add: exactTotal_Nil)
next
  case (Cons m ms)
  have IH: "exactTotal f (filter (\<lambda>m. P m \<and> Q m) ms) \<le> exactTotal f (filter P ms)"
    using Cons by simp
  show ?case
  proof (cases "P m")
    case True
    then have "0 \<le> amount (f m)" using Cons.prems[of m] by (simp add: wholeAmount_def)
    then show ?thesis using IH True by (simp add: exactTotal_Cons)
  next
    case False
    then show ?thesis using IH by simp
  qed
qed

lemma orZero_amount: "orZero v = toDouble (amount v)"
  by (cases v) (simp_all add: orZero_def amount_def toDouble_0)

lemma fold_jsAdd_whole:
  assumes "\<And>m. m \<in> set ms \<Longrightarrow> wholeAmount (f m)"
    and "0 \<le> a" and "of_int a + exactTotal f ms < 2 ^ 53"
  shows "fold (\<lambda>m acc. jsAdd acc (orZero (f m))) ms (of_int a) = of_int a + exactTotal f ms"
  using assms
proof (induction ms arbitrary: a)
  case Nil
  then show ?case by (simp add: exactTotal_Nil)
next
  case (Cons m ms)
  define k where "k = \<lfloor>amount (f m)\<rfloor>"
  have w: "wholeAmount (f m)" using Cons.prems(1) by simp
  then have "0 \<le> amount (f m)" and "of_int \<lfloor>amount (f m)\<rfloor> = amount (f m)"
    unfolding wholeAmount_def by blast+
  then have k: "amount (f m) = of_int k" "0 \<le> k"
    unfolding k_def by (simp_all only: zero_le_floor of_int_0)
  have rest: "0 \<le> exactTotal f ms"
    using Cons.prems(1) by (intro exactTotal_nonneg) simp
  have bound: "(of_int (a + k) :: rat) + exactTotal f ms < 2 ^ 53"
    using Cons.prems(3) by (simp add: exactTotal_Cons k add.assoc)
  then have "(of_int (a + k) :: rat) < 2 ^ 53" using rest by linarith
  then have ak: "a + k < 2 ^ 53"
    by (metis of_int_less_numeral_power_cancel_iff)
  then have "\<bar>k\<bar> < 2 ^ 53" "\<bar>a + k\<bar> < 2 ^ 53" using k(2) Cons.prems(2) by linarith+
  then have "orZero (f m) = of_int k" and "jsAdd (of_int a) (of_int k) = of_int (a + k)"
    by (simp_all add: orZero_amount k toDouble_of_int jsAdd_ints)
  then have "fold (\<lambda>m acc. jsAdd acc (orZero (f m))) (m # ms) (of_int a)
      = fold (\<lambda>m acc. jsAdd acc (orZero (f m))) ms (of_int (a + k))"
    by simp
  also have "\<dots> = of_int (a + k) + exactTotal f ms"
    using Cons.prems(1,2) k(2) bound by (intro Cons.IH) simp_all
  finally show ?case by (simp add: exactTotal_Cons k)
qed

lemma totalOf_whole:
  assumes "\<And>m. m \<in> set ms \<Longrightarrow> wholeAmount (f m)" and "exactTotal f ms < 2 ^ 53"
  shows "totalOf f ms = exactTotal f ms"
  using fold_jsAdd_whole[of ms f 0] assms by (simp add: totalOf_def)

lemma onDay_as_filter:
  "i < 7 \<Longrightarrow> onDay startDate i meals
     = filter (\<lambda>m. inWindow startDate m \<and> dayIndexOf startDate m = int i) meals"
  unfolding onDay_def by (rule filter_cong) (auto simp: inWindow_def)

lemma js_round_Ints: "x \<in> \<int> \<Longrightarrow> of_int (js_round x) = x"
  by (auto simp: Ints_def)

lemma of_int_sum_list_map:
  "(of_int (sum_list (map g xs)) :: rat) = sum_list (map (\<lambda>i. of_int (g i)) xs)"
  by (induction xs) simp_all

lemma js_round_zero: "js_round 0 = 0"
  using js_round_of_int[of 0] by simp

lemma whole_buckets_sum:
  assumes whole: "\<And>m. m \<in> set meals \<Longrightarrow> inWindow startDate m \<Longrightarrow> wholeAmount (f m)"
    and bound: "exactTotal f (filter (inWindow startDate) meals) < 2 ^ 53"
  shows "of_int (sum_list (map (\<lambda>i. js_round (totalOf f (onDay startDate i meals))) [0..<7]))
     = exactTotal f (filter (inWindow startDate) meals)"
proof -
  have bucket: "of_int (js_round (totalOf f (onDay startDate i meals)))
      = exactTotal f (onDay startDate i meals)"
    if "i \<in> set [0..<7]" for i
  proof -
    have i: "i < 7" using that by simp
    have w: "wholeAmount (f m)" if "m \<in> set (onDay startDate i meals)" for m
      using that whole unfolding onDay_as_filter[OF i] by simp
    have "exactTotal f (onDay startDate i meals) \<le> exactTotal f (filter (inWindow startDate) meals)"
      unfolding onDay_as_filter[OF i] using whole by (intro exactTotal_filter_le) simp
    then have b: "exactTotal f (onDay startDate i meals) < 2 ^ 53" using bound by linarith
    have "totalOf f (onDay startDate i meals) = exactTotal f (onDay startDate i meals)"
      using w b by (rule totalOf_whole)
    moreover have "exactTotal f (onDay startDate i meals) \<in> \<int>"
      using w by (rule exactTotal_Ints)
    ultimately show ?thesis by (simp add: js_round_Ints)
  qed
  have "(of_int (sum_list (map (\<lambda>i. js_round (totalOf f (onDay startDate i meals))) [0..<7])) :: rat)
      = sum_list (map (\<lambda>i. of_int (js_round (totalOf f (onDay startDate i meals)))) [0..<7])"
    by (rule of_int_sum_list_map)
  also have "\<dots> = sum_list (map (\<lambda>i. exactTotal f (onDay startDate i meals)) [0..<7])"
    by (intro arg_cong[where f = sum_list] map_cong refl bucket)
  finally show ?thesis unfolding window_total .
qed

lemma statisticsOfMeals_weeklyTrends:
  "\<exists>st. statisticsOfMeals tz startDate endDate meals = Inr st \<and>
     weeklyTrends st = calculateWeeklyTrends meals startDate endDate"
proof (cases "meals = []")
  case True
  have "calculateWeeklyTrends [] startDate endDate = weeklyTrends getDefaultStatistics"
    by (simp add: calculateWeeklyTrends_def getDefaultStatistics_def days_def emptyDay_def
        numeral_eq_Suc js_round_zero)
  then show ?thesis using True by (simp add: statisticsOfMeals_def)
next
  case False
  then show ?thesis using statisticsOfMeals_fields[of meals tz startDate endDate] by blast
qed

lemma onDay_filter_inWindow:
  "i < 7 \<Longrightarrow> onDay startDate i (filter (inWindow startDate) meals) = onDay startDate i meals"
  unfolding onDay_def filter_filter
  by (rule filter_cong) (auto simp: inWindow_def)

lemma calculateWeeklyTrends_window_only:
  "calculateWeeklyTrends (filter (inWindow startDate) meals) startDate endDate
     = calculateWeeklyTrends meals startDate endDate"
proof -
  have "map (\<lambda>i. js_round (totalOf f (onDay startDate i (filter (inWindow startDate) meals)))) [0..<7]
      = map (\<lambda>i. js_round (totalOf f (onDay startDate i meals))) [0..<7]" for f
    by (rule map_cong) (simp_all add: onDay_filter_inWindow)
  then show ?thesis
    using calculateWeeklyTrends_buckets[of meals startDate endDate]
      calculateWeeklyTrends_buckets[of "filter (inWindow startDate) meals" startDate endDate]
    by (intro weeklyTrends.equality) simp_all
qed

section \<open>Properties of the statistics service\<close>

subsection \<open>Empty input\<close>

text \<open>
  C1. When the query finds no meal, \<open>getNutritionStatistics\<close> returns, for every
  period selector, exactly the default statistics object and raises nothing:
  every daily average is 0, the goal achievement and the processed-food
  percentage are 0, the score is 50, the eating window is 08:00 to 20:00, the
  fasting estimate is 12 hours, no meal is missed, each of the four weekly trend
  sequences is seven zeros and the most common meal time is 12:00.
\<close>

theorem empty_meal_list_gives_default:
  assumes "findMany userId (startDateOf period now) now = Inr []"
  shows "getNutritionStatistics findMany tz now userId period = Inr getDefaultStatistics \<and>
    averageCaloriesDaily getDefaultStatistics = 0 \<and>
    averageProteinDaily getDefaultStatistics = 0 \<and>
    averageCarbsDaily getDefaultStatistics = 0 \<and>
    averageFatsDaily getDefaultStatistics = 0 \<and>
    averageFiberDaily getDefaultStatistics = 0 \<and>
    averageSodiumDaily getDefaultStatistics = 0 \<and>
    averageSugarDaily getDefaultStatistics = 0 \<and>
    averageFluidsDaily getDefaultStatistics = 0 \<and>
    calorieGoalAchievementPercent getDefaultStatistics = 0 \<and>
    processedFoodPercentage getDefaultStatistics = 0 \<and>
    nutritionScore getDefaultStatistics = 50 \<and>
    averageEatingHours getDefaultStatistics = \<lparr> eh_start = ''08:00'', eh_end = ''20:00'' \<rparr> \<and>
    intermittentFastingHours getDefaultStatistics = Some 12 \<and>
    missedMealsAlert getDefaultStatistics = 0 \<and>
    tr_calories (weeklyTrends getDefaultStatistics) = replicate 7 0 \<and>
    tr_protein (weeklyTrends getDefaultStatistics) = replicate 7 0 \<and>
    tr_carbs (weeklyTrends getDefaultStatistics) = replicate 7 0 \<and>
    tr_fats (weeklyTrends getDefaultStatistics) = replicate 7 0 \<and>
    mostCommonMealTime (generalStats getDefaultStatistics) = ''12:00''"
proof -
  have "getNutritionStatistics findMany tz now userId period = Inr getDefaultStatistics"
    using assms by (simp add: getNutritionStatistics_def statisticsOfMeals_def Let_def)
  moreover have "replicate 7 (0::int) = [0, 0, 0, 0, 0, 0, 0]"
    by (simp add: numeral_eq_Suc)
  ultimately show ?thesis
    by (simp add: getDefaultStatistics_def)
qed

theorem empty_meal_list_gives_default_witness:
  "fixedResult [] ''u'' (startDateOf ''week'' 0) 0 = Inr [] \<and>
   getNutritionStatistics (fixedResult []) 0 0 ''u'' ''week'' = Inr getDefaultStatistics \<and>
   getNutritionStatistics (fixedResult []) 0 0 ''u'' ''month'' = Inr getDefaultStatistics \<and>
   getNutritionStatistics (fixedResult []) 0 0 ''u'' ''custom'' = Inr getDefaultStatistics"
  using empty_meal_list_gives_default[of "fixedResult []" "''u''" "''week''" 0 0]
    empty_meal_list_gives_default[of "fixedResult []" "''u''" "''month''" 0 0]
    empty_meal_list_gives_default[of "fixedResult []" "''u''" "''custom''" 0 0]
  by (simp add: fixedResult_def)

subsection \<open>The nutrition score\<close>

text \<open>
  C2. For every non-empty meal list the aggregation returns a statistics object
  whose nutrition score is the base 50 plus the four band bonuses, rounded and
  clamped to 1..100. The bands, with inclusive boundaries, are those of
  \<open>goalBonus\<close>, \<open>proteinBonus\<close>, \<open>fiberBonus\<close> and \<open>processedBonus\<close>; they are
  applied to the goal achievement, the daily protein, the daily fibre and the
  processed-food percentage as the code computes them in doubles, before
  \<^verbatim>\<open>Math.round\<close>. In the instance below the three protein values 30.4, 33.8
  and 55.8 add up to 120 exactly, but to 119.99999999999999 in doubles, so the
  protein bonus is 10 and the score 85.
\<close>

theorem nutrition_score_is_base_plus_bands:
  assumes "meals \<noteq> []"
  shows "\<exists>st. statisticsOfMeals tz startDate endDate meals = Inr st \<and>
    nutritionScore st =
      max 1 (min 100 (js_round
        (50 + goalBonus (goalPercent startDate endDate meals)
            + proteinBonus (dailyAverage protein_g startDate endDate meals)
            + fiberBonus (dailyAverage fiber_g startDate endDate meals)
            + processedBonus (processedPercent meals))))"
  using statisticsOfMeals_score[OF assms, of tz startDate endDate]
  by (simp add: bandScore_def)

theorem nutrition_score_is_base_plus_bands_witness:
  "proteinSample \<noteq> [] \<and>
   exactTotal protein_g proteinSample = 120 \<and>
   dailyAverage protein_g 0 msPerDay proteinSample < 120 \<and>
   (\<exists>st. statisticsOfMeals 0 0 msPerDay proteinSample = Inr st \<and> nutritionScore st = 85)"
proof -
  have ne: "proteinSample \<noteq> []" by (simp add: proteinSample_def)
  obtain st where st: "statisticsOfMeals 0 0 msPerDay proteinSample = Inr st"
    and sc: "nutritionScore st =
      max 1 (min 100 (js_round
        (50 + goalBonus (goalPercent 0 msPerDay proteinSample)
            + proteinBonus (dailyAverage protein_g 0 msPerDay proteinSample)
            + fiberBonus (dailyAverage fiber_g 0 msPerDay proteinSample)
            + processedBonus (processedPercent proteinSample))))"
    using nutrition_score_is_base_plus_bands[OF ne, of 0 0 msPerDay] by blast
  have "max 1 (min 100 (js_round
        (50 + goalBonus (goalPercent 0 msPerDay proteinSample)
            + proteinBonus (dailyAverage protein_g 0 msPerDay proteinSample)
            + fiberBonus (dailyAverage fiber_g 0 msPerDay proteinSample)
            + processedBonus (processedPercent proteinSample)))) = 85"
    by code_simp
  moreover have "exactTotal protein_g proteinSample = 120"
    by code_simp
  moreover have "dailyAverage protein_g 0 msPerDay proteinSample < 120"
    by code_simp
  ultimately show ?thesis using ne st sc by auto
qed

text \<open>
  C8. The nutrition score is monotonic non-decreasing in the average daily
  protein when the other inputs are held fixed; raising the protein from 119 to
  120 moves the protein bonus from 10 to 15 and the score up by 5.
\<close>

theorem score_monotone_in_protein:
  assumes "p1 \<le> p2"
  shows "calculateNutritionScore (data\<lparr>sd_averageProteinDaily := p1\<rparr>)
       \<le> calculateNutritionScore (data\<lparr>sd_averageProteinDaily := p2\<rparr>) \<and>
     proteinBonus 119 = 10 \<and> proteinBonus 120 = 15 \<and>
     calculateNutritionScore (data\<lparr>sd_averageProteinDaily := 120\<rparr>)
       = calculateNutritionScore (data\<lparr>sd_averageProteinDaily := 119\<rparr>) + 5"
proof -
  have "(of_int (calculateNutritionScore (data\<lparr>sd_averageProteinDaily := 120\<rparr>)) :: rat)
       = of_int (calculateNutritionScore (data\<lparr>sd_averageProteinDaily := 119\<rparr>) + 5)"
    by (simp add: calculateNutritionScore_bands bandScore_unclamped proteinBonus_def)
  then have "calculateNutritionScore (data\<lparr>sd_averageProteinDaily := 120\<rparr>)
       = calculateNutritionScore (data\<lparr>sd_averageProteinDaily := 119\<rparr>) + 5"
    by (simp only: of_int_eq_iff)
  moreover have "calculateNutritionScore (data\<lparr>sd_averageProteinDaily := p1\<rparr>)
       \<le> calculateNutritionScore (data\<lparr>sd_averageProteinDaily := p2\<rparr>)"
    using assms by (simp add: calculateNutritionScore_bands bandScore_mono_protein)
  ultimately show ?thesis by (simp add: proteinBonus_def)
qed

theorem score_monotone_in_protein_witness:
  "(119::rat) \<le> 120 \<and>
   calculateNutritionScore (sampleScoreData\<lparr>sd_averageProteinDaily := 119\<rparr>) = 85 \<and>
   calculateNutritionScore (sampleScoreData\<lparr>sd_averageProteinDaily := 120\<rparr>) = 90 \<and>
   calculateNutritionScore (sampleScoreData\<lparr>sd_averageProteinDaily := 119\<rparr>)
     \<le> calculateNutritionScore (sampleScoreData\<lparr>sd_averageProteinDaily := 120\<rparr>)"
proof -
  have le: "(119::rat) \<le> 120" by simp
  have "calculateNutritionScore (sampleScoreData\<lparr>sd_averageProteinDaily := 119\<rparr>) = 85"
    by code_simp
  moreover have "calculateNutritionScore (sampleScoreData\<lparr>sd_averageProteinDaily := 120\<rparr>) = 90"
    by code_simp
  ultimately show ?thesis
    using le score_monotone_in_protein[OF le, of sampleScoreData] by simp
qed

text \<open>
  C10. For every non-empty meal list the nutrition score returned lies between
  35 and 100: the worst case is the base 50 with no bonus and the largest
  processed-food penalty of 15, so the lower clamp bound 1 is never reached.
\<close>

theorem nutrition_score_at_least_35:
  assumes "meals \<noteq> []"
  shows "\<exists>st. statisticsOfMeals tz startDate endDate meals = Inr st \<and>
    35 \<le> nutritionScore st \<and> nutritionScore st \<le> 100"
  using statisticsOfMeals_score[OF assms, of tz startDate endDate] bandScore_range
  by auto

theorem nutrition_score_at_least_35_witness:
  "[sampleMeal 0 None None\<lparr>processing_level := Some ''PROCESSED''\<rparr>] \<noteq> [] \<and>
   (\<exists>st. statisticsOfMeals 0 0 msPerDay
            [sampleMeal 0 None None\<lparr>processing_level := Some ''PROCESSED''\<rparr>] = Inr st \<and>
      35 \<le> nutritionScore st \<and> nutritionScore st \<le> 100)"
  using nutrition_score_at_least_35
    [of "[sampleMeal 0 None None\<lparr>processing_level := Some ''PROCESSED''\<rparr>]" 0 0 msPerDay]
  by simp

subsection \<open>Goal achievement\<close>

text \<open>
  C7 (amended). For every non-empty meal list the goal achievement percentage is
  \<^verbatim>\<open>Math.round(Math.min(100, (a / 2000) * 100))\<close>, where \<open>a\<close> is the average of
  calories per day before rounding (the accumulated total divided by the number
  of days) and the quotient \<open>a / 2000\<close> and its product with 100 are each rounded
  to a double, in that order. The goal is the fixed 2000 kcal per day and the
  percentage never exceeds 100. Taking the minimum before or after
  \<^verbatim>\<open>Math.round\<close> gives the same value. The result can be one less than
  \<open>min 100 (round (100 * a / 2000))\<close>: for \<open>a = 290\<close> the code gives 14, since
  \<open>(290 / 2000) * 100\<close> is 14.499999999999998 in doubles.
\<close>

theorem goal_achievement_capped:
  assumes "meals \<noteq> []"
  shows "\<exists>st. statisticsOfMeals tz startDate endDate meals = Inr st \<and>
    calorieGoalAchievementPercent st =
      js_round (min 100 (jsMul (jsDiv (dailyAverage calories startDate endDate meals) 2000) 100)) \<and>
    calorieGoalAchievementPercent st =
      min 100 (js_round (jsMul (jsDiv (dailyAverage calories startDate endDate meals) 2000) 100)) \<and>
    calorieGoalAchievementPercent st \<le> 100"
  using statisticsOfMeals_fields[OF assms, of tz startDate endDate]
  by (auto simp: goalPercent_def js_round_min100)

theorem goal_achievement_capped_witness:
  "[sampleMeal 32400000 (Some 5000) (Some 150)] \<noteq> [] \<and>
   (\<exists>st. statisticsOfMeals 0 0 msPerDay [sampleMeal 32400000 (Some 5000) (Some 150)] = Inr st \<and>
      calorieGoalAchievementPercent st = 100)"
proof -
  let ?ms = "[sampleMeal 32400000 (Some 5000) (Some 150)]"
  have ne: "?ms \<noteq> []" by simp
  obtain st where st: "statisticsOfMeals 0 0 msPerDay ?ms = Inr st"
    and g: "calorieGoalAchievementPercent st =
      min 100 (js_round (jsMul (jsDiv (dailyAverage calories 0 msPerDay ?ms) 2000) 100))"
    using goal_achievement_capped[OF ne, of 0 0 msPerDay] by blast
  have "min 100 (js_round (jsMul (jsDiv (dailyAverage calories 0 msPerDay ?ms) 2000) 100)) = 100"
    by code_simp
  then show ?thesis using ne st g by auto
qed

theorem goal_achievement_counterexample:
  "goalSample \<noteq> [] \<and>
   dailyAverage calories 0 604800000 goalSample = 290 \<and>
   (\<exists>st. statisticsOfMeals 0 0 604800000 goalSample = Inr st \<and>
      calorieGoalAchievementPercent st = 14) \<and>
   min 100 (js_round (100 * dailyAverage calories 0 604800000 goalSample / 2000)) = 15 \<and>
   min 100 (js_round (jsDiv (jsMul 100 (dailyAverage calories 0 604800000 goalSample)) 2000)) = 15"
proof -
  have ne: "goalSample \<noteq> []" by (simp add: goalSample_def)
  obtain st where st: "statisticsOfMeals 0 0 604800000 goalSample = Inr st"
    and g: "calorieGoalAchievementPercent st = js_round (goalPercent 0 604800000 goalSample)"
    using statisticsOfMeals_fields[OF ne, of 0 0 604800000] by blast
  have "js_round (goalPercent 0 604800000 goalSample) = 14"
    by code_simp
  moreover have "dailyAverage calories 0 604800000 goalSample = 290"
    by code_simp
  moreover have "min 100 (js_round (100 * dailyAverage calories 0 604800000 goalSample / 2000)) = 15"
    by code_simp
  moreover have
    "min 100 (js_round (jsDiv (jsMul 100 (dailyAverage calories 0 604800000 goalSample)) 2000)) = 15"
    by code_simp
  ultimately show ?thesis using ne st g by auto
qed

subsection \<open>Insights\<close>

text \<open>
  C9. The claim is that for every non-empty meal list exactly one of the three
  score-tier insight strings is emitted, first in the insights, followed by the
  other rules in rule order. The rule list of the code does that (lemma
  \<open>generateInsights_rules\<close> and \<open>generateInsights_one_tier\<close>), but
  \<^verbatim>\<open>getNutritionStatistics\<close> never calls it: the later declaration of
  \<^verbatim>\<open>generateInsights\<close> replaces it, and for every non-empty meal list the field
  \<^verbatim>\<open>insights\<close> of the returned object is a promise, not a list of strings, so no
  score-tier string is emitted.
\<close>

theorem insights_field_is_a_promise:
  assumes "meals \<noteq> []"
  shows "\<exists>st. statisticsOfMeals tz startDate endDate meals = Inr st \<and>
    insights st = PendingPromise \<and> (\<forall>ss. insights st \<noteq> InsightList ss)"
  using statisticsOfMeals_fields[OF assms, of tz startDate endDate] by auto

theorem insights_field_is_a_promise_witness:
  "[sampleMeal 32400000 (Some 2000) (Some 150)] \<noteq> [] \<and>
   (\<exists>st. statisticsOfMeals 0 0 msPerDay [sampleMeal 32400000 (Some 2000) (Some 150)] = Inr st \<and>
      insights st = PendingPromise)"
  using insights_field_is_a_promise[of "[sampleMeal 32400000 (Some 2000) (Some 150)]" 0 0 msPerDay]
  by auto

subsection \<open>The period selector\<close>

text \<open>
  C4 (amended). A period selector other than "week", "month" and "custom" does
  not make \<open>getNutritionStatistics\<close> signal an error. The switch on the period has
  no default branch: the start date stays equal to the end date, the number of
  days is 1, and whenever the meal query succeeds the function returns the
  statistics object computed from the meals that the query found.
\<close>

theorem unsupported_period_returns_statistics:
  assumes "period \<noteq> ''week''" and "period \<noteq> ''month''" and "period \<noteq> ''custom''"
    and "findMany userId now now = Inr meals"
  shows "startDateOf period now = now \<and> totalDaysOf (startDateOf period now) now = 1 \<and>
    (\<exists>st. getNutritionStatistics findMany tz now userId period = Inr st \<and>
       statisticsOfMeals tz now now meals = Inr st)"
proof -
  obtain st where "statisticsOfMeals tz now now meals = Inr st"
    using statisticsOfMeals_returns by blast
  then show ?thesis using assms
    by (simp add: getNutritionStatistics_def startDateOf_other totalDaysOf_same Let_def)
qed

theorem unsupported_period_returns_statistics_witness:
  "''year'' \<noteq> ''week'' \<and> ''year'' \<noteq> ''month'' \<and> ''year'' \<noteq> ''custom'' \<and>
   fixedResult [sampleMeal 0 (Some 2000) (Some 150)] ''u'' 0 0
     = Inr [sampleMeal 0 (Some 2000) (Some 150)] \<and>
   (\<exists>st. getNutritionStatistics (fixedResult [sampleMeal 0 (Some 2000) (Some 150)]) 0 0 ''u'' ''year''
      = Inr st)"
proof -
  have a: "''year'' \<noteq> ''week''" "''year'' \<noteq> ''month''" "''year'' \<noteq> ''custom''"
    by simp_all
  have b: "fixedResult [sampleMeal 0 (Some 2000) (Some 150)] ''u'' 0 0
     = Inr [sampleMeal 0 (Some 2000) (Some 150)]"
    by (simp add: fixedResult_def)
  show ?thesis
    using a b
      unsupported_period_returns_statistics
        [where period = "''year''" and userId = "''u''" and now = 0 and tz = 0
           and findMany = "fixedResult [sampleMeal 0 (Some 2000) (Some 150)]"
           and meals = "[sampleMeal 0 (Some 2000) (Some 150)]"]
    by blast
qed

theorem unsupported_period_counterexample:
  "''year'' \<noteq> ''week'' \<and> ''year'' \<noteq> ''month'' \<and> ''year'' \<noteq> ''custom'' \<and>
   getNutritionStatistics (fixedResult []) 0 0 ''u'' ''year'' = Inr getDefaultStatistics \<and>
   (\<forall>e. getNutritionStatistics (fixedResult []) 0 0 ''u'' ''year'' \<noteq> Inl e)"
  by (simp add: getNutritionStatistics_def statisticsOfMeals_def fixedResult_def Let_def)

subsection \<open>Weekly trends\<close>

text \<open>
  C3 (amended). For every meal list and every start and end date, each of the
  seven buckets of each weekly trend sequence (calories, protein, carbs, fats) is
  \<^verbatim>\<open>Math.round\<close> of that nutrient's total over the meals whose day index
  \<open>floor ((uploadTime - startDate) / 1 day)\<close> equals the index of the bucket, the
  total accumulated in doubles in the order of the list. Meals whose day index
  lies outside 0..6 contribute nothing: the trend is that of the meals inside
  the window alone. When the values of a nutrient on the meals inside the window
  are non-negative whole numbers with a sum below \<open>2 ^ 53\<close>, the sum over the
  seven buckets equals the sum of the nutrient's values over those meals. With
  fractional values the rounding of each bucket makes the two sums differ.
\<close>

theorem weekly_trend_buckets:
  "\<exists>st. statisticsOfMeals tz startDate endDate meals = Inr st \<and>
     tr_calories (weeklyTrends st)
       = map (\<lambda>i. js_round (totalOf calories (onDay startDate i meals))) [0..<7] \<and>
     tr_protein (weeklyTrends st)
       = map (\<lambda>i. js_round (totalOf protein_g (onDay startDate i meals))) [0..<7] \<and>
     tr_carbs (weeklyTrends st)
       = map (\<lambda>i. js_round (totalOf carbs_g (onDay startDate i meals))) [0..<7] \<and>
     tr_fats (weeklyTrends st)
       = map (\<lambda>i. js_round (totalOf fats_g (onDay startDate i meals))) [0..<7] \<and>
     weeklyTrends st = calculateWeeklyTrends (filter (inWindow startDate) meals) startDate endDate \<and>
     ((\<forall>m \<in> set meals. inWindow startDate m \<longrightarrow> wholeAmount (calories m)) \<and>
      exactTotal calories (filter (inWindow startDate) meals) < 2 ^ 53 \<longrightarrow>
        of_int (sum_list (tr_calories (weeklyTrends st)))
          = exactTotal calories (filter (inWindow startDate) meals)) \<and>
     ((\<forall>m \<in> set meals. inWindow startDate m \<longrightarrow> wholeAmount (protein_g m)) \<and>
      exactTotal protein_g (filter (inWindow startDate) meals) < 2 ^ 53 \<longrightarrow>
        of_int (sum_list (tr_protein (weeklyTrends st)))
          = exactTotal protein_g (filter (inWindow startDate) meals)) \<and>
     ((\<forall>m \<in> set meals. inWindow startDate m \<longrightarrow> wholeAmount (carbs_g m)) \<and>
      exactTotal carbs_g (filter (inWindow startDate) meals) < 2 ^ 53 \<longrightarrow>
        of_int (sum_list (tr_carbs (weeklyTrends st)))
          = exactTotal carbs_g (filter (inWindow startDate) meals)) \<and>
     ((\<forall>m \<in> set meals. inWindow startDate m \<longrightarrow> wholeAmount (fats_g m)) \<and>
      exactTotal fats_g (filter (inWindow startDate) meals) < 2 ^ 53 \<longrightarrow>
        of_int (sum_list (tr_fats (weeklyTrends st)))
          = exactTotal fats_g (filter (inWindow startDate) meals))"
proof -
  obtain st where st: "statisticsOfMeals tz startDate endDate meals = Inr st"
    and wt: "weeklyTrends st = calculateWeeklyTrends meals startDate endDate"
    using statisticsOfMeals_weeklyTrends by blast
  note b = calculateWeeklyTrends_buckets[of meals startDate endDate, folded wt]
  have c: "tr_calories (weeklyTrends st)
       = map (\<lambda>i. js_round (totalOf calories (onDay startDate i meals))) [0..<7]"
    and p: "tr_protein (weeklyTrends st)
       = map (\<lambda>i. js_round (totalOf protein_g (onDay startDate i meals))) [0..<7]"
    and cb: "tr_carbs (weeklyTrends st)
       = map (\<lambda>i. js_round (totalOf carbs_g (onDay startDate i meals))) [0..<7]"
    and f: "tr_fats (weeklyTrends st)
       = map (\<lambda>i. js_round (totalOf fats_g (onDay startDate i meals))) [0..<7]"
    using b by blast+
  have w: "weeklyTrends st = calculateWeeklyTrends (filter (inWindow startDate) meals) startDate endDate"
    unfolding wt by (rule calculateWeeklyTrends_window_only[symmetric])
  have s1: "(\<forall>m \<in> set meals. inWindow startDate m \<longrightarrow> wholeAmount (calories m)) \<and>
      exactTotal calories (filter (inWindow startDate) meals) < 2 ^ 53 \<longrightarrow>
        of_int (sum_list (tr_calories (weeklyTrends st)))
          = exactTotal calories (filter (inWindow startDate) meals)"
    unfolding c using whole_buckets_sum[of meals startDate calories] by blast
  have s2: "(\<forall>m \<in> set meals. inWindow startDate m \<longrightarrow> wholeAmount (protein_g m)) \<and>
      exactTotal protein_g (filter (inWindow startDate) meals) < 2 ^ 53 \<longrightarrow>
        of_int (sum_list (tr_protein (weeklyTrends st)))
          = exactTotal protein_g (filter (inWindow startDate) meals)"
    unfolding p using whole_buckets_sum[of meals startDate protein_g] by blast
  have s3: "(\<forall>m \<in> set meals. inWindow startDate m \<longrightarrow> wholeAmount (carbs_g m)) \<and>
      exactTotal carbs_g (filter (inWindow startDate) meals) < 2 ^ 53 \<longrightarrow>
        of_int (sum_list (tr_carbs (weeklyTrends st)))
          = exactTotal carbs_g (filter (inWindow startDate) meals)"
    unfolding cb using whole_buckets_sum[of meals startDate carbs_g] by blast
  have s4: "(\<forall>m \<in> set meals. inWindow startDate m \<longrightarrow> wholeAmount (fats_g m)) \<and>
      exactTotal fats_g (filter (inWindow startDate) meals) < 2 ^ 53 \<longrightarrow>
        of_int (sum_list (tr_fats (weeklyTrends st)))
          = exactTotal fats_g (filter (inWindow startDate) meals)"
    unfolding f using whole_buckets_sum[of meals startDate fats_g] by blast
  show ?thesis
    using st c p cb f w s1 s2 s3 s4 by blast
qed

theorem weekly_trend_buckets_witness:
  "(\<exists>st. statisticsOfMeals 0 0 2592000000 trendSample = Inr st \<and>
      tr_calories (weeklyTrends st) = [500, 0, 0, 0, 0, 0, 0] \<and>
      sum_list (tr_calories (weeklyTrends st)) = 500) \<and>
   exactTotal calories (filter (inWindow 0) trendSample) = 500 \<and>
   exactTotal calories trendSample = 800 \<and>
   (\<exists>st. statisticsOfMeals 0 0 604800000 decimalSample = Inr st \<and>
      tr_calories (weeklyTrends st) = [21, 0, 0, 0, 0, 0, 0]) \<and>
   exactTotal calories decimalSample = 43 / 2"
proof -
  obtain st where st: "statisticsOfMeals 0 0 2592000000 trendSample = Inr st"
    and c: "tr_calories (weeklyTrends st)
       = map (\<lambda>i. js_round (totalOf calories (onDay 0 i trendSample))) [0..<7]"
    and s: "(\<forall>m \<in> set trendSample. inWindow 0 m \<longrightarrow> wholeAmount (calories m)) \<and>
      exactTotal calories (filter (inWindow 0) trendSample) < 2 ^ 53 \<longrightarrow>
        (of_int (sum_list (tr_calories (weeklyTrends st))) :: rat)
          = exactTotal calories (filter (inWindow 0) trendSample)"
    using weekly_trend_buckets[of 0 0 2592000000 trendSample] by blast
  obtain st' where st': "statisticsOfMeals 0 0 604800000 decimalSample = Inr st'"
    and c': "tr_calories (weeklyTrends st')
       = map (\<lambda>i. js_round (totalOf calories (onDay 0 i decimalSample))) [0..<7]"
    using weekly_trend_buckets[of 0 0 604800000 decimalSample] by blast
  have whole: "\<forall>m \<in> set trendSample. inWindow 0 m \<longrightarrow> wholeAmount (calories m)"
    by (simp add: trendSample_def sampleMeal_def wholeAmount_def amount_def)
  have t: "exactTotal calories (filter (inWindow 0) trendSample) = 500"
    by code_simp
  have t2: "exactTotal calories trendSample = 800"
    by code_simp
  have t3: "exactTotal calories decimalSample = 43 / 2"
    by code_simp
  have "(of_int (sum_list (tr_calories (weeklyTrends st))) :: rat) = of_int 500"
    using s whole t by simp
  then have sm: "sum_list (tr_calories (weeklyTrends st)) = 500"
    by (simp only: of_int_eq_iff)
  have "map (\<lambda>i. js_round (totalOf calories (onDay 0 i trendSample))) [0..<7]
      = [500, 0, 0, 0, 0, 0, 0]"
    by code_simp
  moreover have "map (\<lambda>i. js_round (totalOf calories (onDay 0 i decimalSample))) [0..<7]
      = [21, 0, 0, 0, 0, 0, 0]"
    by code_simp
  ultimately show ?thesis using st c sm t t2 t3 st' c' by simp
qed

theorem weekly_trend_sum_counterexample:
  "inWindow 0 (sampleMeal 0 (Some (1 / 2)) None) \<and>
   tr_calories (calculateWeeklyTrends [sampleMeal 0 (Some (1 / 2)) None] 0 604800000)
     = [1, 0, 0, 0, 0, 0, 0] \<and>
   exactTotal calories (filter (inWindow 0) [sampleMeal 0 (Some (1 / 2)) None]) = 1 / 2 \<and>
   of_int (sum_list (tr_calories (calculateWeeklyTrends [sampleMeal 0 (Some (1 / 2)) None] 0 604800000)))
     \<noteq> exactTotal calories (filter (inWindow 0) [sampleMeal 0 (Some (1 / 2)) None])"
  by code_simp

subsection \<open>Most common meal time\<close>

text \<open>
  C5 (amended). For every non-empty meal list the most common meal time is an
  hour of the day (0 to 23) with the highest meal count, written \<^verbatim>\<open>HH:00\<close>. When
  two or more hours tie for the highest count, the hour chosen is the last of
  them in the iteration order over the hour buckets; the buckets are iterated in
  ascending order of the hour, so it is the latest of the tied hours.
\<close>

theorem most_common_meal_time_latest_of_most_frequent:
  assumes "meals \<noteq> []"
  shows "\<exists>st h. statisticsOfMeals tz startDate endDate meals = Inr st \<and>
    mostCommonMealTime (generalStats st) = padStart 2 CHR ''0'' (showNat h) @ '':00'' \<and>
    h < 24 \<and> 0 < mealsAtHour tz meals h \<and>
    (\<forall>h'. mealsAtHour tz meals h' \<le> mealsAtHour tz meals h) \<and>
    (\<forall>h'. mealsAtHour tz meals h' = mealsAtHour tz meals h \<longrightarrow> h' \<le> h) \<and>
    sorted_wrt (<) (map fst (hourCountsOf tz meals))"
proof -
  obtain st where st: "statisticsOfMeals tz startDate endDate meals = Inr st"
    and mc: "Inr (mostCommonMealTime (generalStats st)) = getMostCommonMealTime tz meals"
    using statisticsOfMeals_fields[OF assms, of tz startDate endDate] by blast
  obtain h where h: "getMostCommonMealTime tz meals = Inr (padStart 2 CHR ''0'' (showNat h) @ '':00'')"
    "h < 24" "0 < mealsAtHour tz meals h"
    "\<forall>h'. mealsAtHour tz meals h' \<le> mealsAtHour tz meals h"
    "\<forall>h'. mealsAtHour tz meals h' = mealsAtHour tz meals h \<longrightarrow> h' \<le> h"
    using getMostCommonMealTime_last_max[OF assms, of tz] by blast
  have "mostCommonMealTime (generalStats st) = padStart 2 CHR ''0'' (showNat h) @ '':00''"
    using mc h(1) by simp
  then show ?thesis using st h(2-5) hourCountsOf_sorted[of tz meals] by blast
qed

theorem most_common_meal_time_latest_of_most_frequent_witness:
  "tieSample \<noteq> [] \<and>
   mealsAtHour 0 tieSample 8 = 1 \<and> mealsAtHour 0 tieSample 13 = 1 \<and>
   (\<exists>st. statisticsOfMeals 0 0 86400000 tieSample = Inr st \<and>
      mostCommonMealTime (generalStats st) = ''13:00'')"
proof -
  have ne: "tieSample \<noteq> []" by (simp add: tieSample_def)
  obtain st h where st: "statisticsOfMeals 0 0 86400000 tieSample = Inr st"
    and mc: "mostCommonMealTime (generalStats st) = padStart 2 CHR ''0'' (showNat h) @ '':00''"
    and h: "h < 24" "0 < mealsAtHour 0 tieSample h"
    and tie: "\<forall>h'. mealsAtHour 0 tieSample h' = mealsAtHour 0 tieSample h \<longrightarrow> h' \<le> h"
    using most_common_meal_time_latest_of_most_frequent[OF ne, of 0 0 86400000] by blast
  have c8: "mealsAtHour 0 tieSample 8 = 1" and c13: "mealsAtHour 0 tieSample 13 = 1"
    by code_simp+
  have "\<forall>k \<in> set [0..<24]. 0 < mealsAtHour 0 tieSample k \<longrightarrow>
          mealsAtHour 0 tieSample k = 1 \<and> k \<le> 13"
    by code_simp
  then have "mealsAtHour 0 tieSample h = 1 \<and> h \<le> 13" using h by simp
  moreover from this have "13 \<le> h" using tie c13 by metis
  ultimately have "h = 13" by simp
  moreover have "padStart 2 CHR ''0'' (showNat 13) @ '':00'' = ''13:00''" by code_simp
  ultimately show ?thesis using ne st mc c8 c13 by simp
qed

theorem most_common_meal_time_tie_counterexample:
  "map fst (hourCountsOf 0 tieSample) = [8, 13] \<and>
   mealsAtHour 0 tieSample 8 = 1 \<and> mealsAtHour 0 tieSample 13 = 1 \<and>
   getMostCommonMealTime 0 tieSample = Inr ''13:00'' \<and>
   getMostCommonMealTime 0 tieSample \<noteq> Inr ''08:00''"
  by code_simp

subsection \<open>Eating window and fasting estimate\<close>

text \<open>
  C6. For every non-empty meal list the eating window starts at the earliest and
  ends at the latest time of day of a meal, both written \<^verbatim>\<open>HH:MM\<close>, and the
  fasting estimate is 24 hours minus (end - start) when end is later than start,
  and start - end otherwise, rounded to whole hours. Meals at 09:00 and 21:00
  only give the window 09:00 to 21:00 and a fasting estimate of 12 hours.
\<close>

theorem fasting_estimate_from_eating_window:
  assumes "meals \<noteq> []"
  shows "\<exists>st. statisticsOfMeals tz startDate endDate meals = Inr st \<and>
    averageEatingHours st =
      \<lparr> eh_start = hhmm (earliestMinute tz meals), eh_end = hhmm (latestMinute tz meals) \<rparr> \<and>
    intermittentFastingHours st =
      Some (js_round (of_int
        (if latestMinute tz meals > earliestMinute tz meals
         then 24 * 60 - (latestMinute tz meals - earliestMinute tz meals)
         else earliestMinute tz meals - latestMinute tz meals) / 60))"
proof -
  obtain st where st: "statisticsOfMeals tz startDate endDate meals = Inr st"
    and eh: "averageEatingHours st = calculateEatingHours tz meals"
    and fh: "intermittentFastingHours st = calculateIntermittentFasting (calculateEatingHours tz meals)"
    using statisticsOfMeals_fields[OF assms, of tz startDate endDate] by blast
  have r: "0 \<le> earliestMinute tz meals" "earliestMinute tz meals < 1440"
    "0 \<le> latestMinute tz meals" "latestMinute tz meals < 1440"
    using earliestMinute_range[OF assms, of tz] latestMinute_range[OF assms, of tz] by simp_all
  show ?thesis
    using st eh fh
    unfolding calculateEatingHours_minutes[OF assms]
      calculateIntermittentFasting_hhmm[OF r]
    by blast
qed

theorem fasting_estimate_from_eating_window_witness:
  "windowSample \<noteq> [] \<and>
   (\<exists>st. statisticsOfMeals 0 0 86400000 windowSample = Inr st \<and>
      averageEatingHours st = \<lparr> eh_start = ''09:00'', eh_end = ''21:00'' \<rparr> \<and>
      intermittentFastingHours st = Some 12)"
proof -
  have ne: "windowSample \<noteq> []" by (simp add: windowSample_def)
  obtain st where st: "statisticsOfMeals 0 0 86400000 windowSample = Inr st"
    and eh: "averageEatingHours st =
      \<lparr> eh_start = hhmm (earliestMinute 0 windowSample),
        eh_end = hhmm (latestMinute 0 windowSample) \<rparr>"
    and fh: "intermittentFastingHours st =
      Some (js_round (of_int
        (if latestMinute 0 windowSample > earliestMinute 0 windowSample
         then 24 * 60 - (latestMinute 0 windowSample - earliestMinute 0 windowSample)
         else earliestMinute 0 windowSample - latestMinute 0 windowSample) / 60))"
    using fasting_estimate_from_eating_window[OF ne, of 0 0 86400000] by blast
  have e: "earliestMinute 0 windowSample = 540" and l: "latestMinute 0 windowSample = 1260"
    by code_simp+
  have s: "hhmm 540 = ''09:00''" and t: "hhmm 1260 = ''21:00''"
    by code_simp+
  have f: "js_round (of_int (if (1260::int) > 540 then 24 * 60 - (1260 - 540) else 540 - 1260) / 60) = 12"
    by code_simp
  show ?thesis using ne st eh fh unfolding e l s t f by blast
qed

end
